theory Spec2Isabelle
  imports Complex_Main
begin

section \<open>Numbers of the source\<close>

text \<open>
  The source computes with JavaScript numbers. They are modelled as exact real numbers
  extended by the three special values the source produces and tests for: plus infinity,
  minus infinity and NaN. Every arithmetic operation is the exact one, with the IEEE rules
  for the special values written out, and zero is the positive zero. The finite range and
  precision of doubles are written out in two places: \<open>Math.exp\<close>, whose result is zero or
  infinite outside a bounded interval of arguments, and the running patient count of
  \<open>calculateTSA\<close>, a sum of integers that is rounded to 53 binary digits. Everywhere else
  rounding and overflow are not part of the model.
\<close>

datatype jsnum = Fin real | PosInf | NegInf | NaN

fun is_finite :: "jsnum \<Rightarrow> bool" where
  "is_finite (Fin _) = True"
| "is_finite _ = False"

instantiation jsnum :: "{plus, uminus, times, divide, abs, ord}"
begin

fun plus_jsnum :: "jsnum \<Rightarrow> jsnum \<Rightarrow> jsnum" where
  "plus_jsnum NaN _ = NaN"
| "plus_jsnum _ NaN = NaN"
| "plus_jsnum (Fin a) (Fin b) = Fin (a + b)"
| "plus_jsnum (Fin _) PosInf = PosInf"
| "plus_jsnum (Fin _) NegInf = NegInf"
| "plus_jsnum PosInf (Fin _) = PosInf"
| "plus_jsnum NegInf (Fin _) = NegInf"
| "plus_jsnum PosInf PosInf = PosInf"
| "plus_jsnum NegInf NegInf = NegInf"
| "plus_jsnum PosInf NegInf = NaN"
| "plus_jsnum NegInf PosInf = NaN"

fun uminus_jsnum :: "jsnum \<Rightarrow> jsnum" where
  "uminus_jsnum (Fin a) = Fin (- a)"
| "uminus_jsnum PosInf = NegInf"
| "uminus_jsnum NegInf = PosInf"
| "uminus_jsnum NaN = NaN"

text \<open>The sign of an infinite product or quotient: the infinity itself, flipped, or NaN
  when the finite factor is zero.\<close>

fun signed_inf :: "bool \<Rightarrow> real \<Rightarrow> jsnum" where
  "signed_inf pos a =
     (if a = 0 then NaN else if (0 < a) = pos then PosInf else NegInf)"

fun times_jsnum :: "jsnum \<Rightarrow> jsnum \<Rightarrow> jsnum" where
  "times_jsnum NaN _ = NaN"
| "times_jsnum _ NaN = NaN"
| "times_jsnum (Fin a) (Fin b) = Fin (a * b)"
| "times_jsnum (Fin a) PosInf = signed_inf True a"
| "times_jsnum (Fin a) NegInf = signed_inf False a"
| "times_jsnum PosInf (Fin b) = signed_inf True b"
| "times_jsnum NegInf (Fin b) = signed_inf False b"
| "times_jsnum PosInf PosInf = PosInf"
| "times_jsnum NegInf NegInf = PosInf"
| "times_jsnum PosInf NegInf = NegInf"
| "times_jsnum NegInf PosInf = NegInf"

fun divide_jsnum :: "jsnum \<Rightarrow> jsnum \<Rightarrow> jsnum" where
  "divide_jsnum NaN _ = NaN"
| "divide_jsnum _ NaN = NaN"
| "divide_jsnum (Fin a) (Fin b) = (if b = 0 then signed_inf True a else Fin (a / b))"
| "divide_jsnum (Fin _) PosInf = Fin 0"
| "divide_jsnum (Fin _) NegInf = Fin 0"
| "divide_jsnum PosInf (Fin b) = (if 0 \<le> b then PosInf else NegInf)"
| "divide_jsnum NegInf (Fin b) = (if 0 \<le> b then NegInf else PosInf)"
| "divide_jsnum PosInf PosInf = NaN"
| "divide_jsnum NegInf NegInf = NaN"
| "divide_jsnum PosInf NegInf = NaN"
| "divide_jsnum NegInf PosInf = NaN"

fun abs_jsnum :: "jsnum \<Rightarrow> jsnum" where
  "abs_jsnum (Fin a) = Fin \<bar>a\<bar>"
| "abs_jsnum PosInf = PosInf"
| "abs_jsnum NegInf = PosInf"
| "abs_jsnum NaN = NaN"

text \<open>Comparisons are false as soon as one side is NaN.\<close>

fun less_jsnum :: "jsnum \<Rightarrow> jsnum \<Rightarrow> bool" where
  "less_jsnum NaN _ = False"
| "less_jsnum _ NaN = False"
| "less_jsnum (Fin a) (Fin b) = (a < b)"
| "less_jsnum (Fin _) PosInf = True"
| "less_jsnum (Fin _) NegInf = False"
| "less_jsnum PosInf _ = False"
| "less_jsnum NegInf (Fin _) = True"
| "less_jsnum NegInf PosInf = True"
| "less_jsnum NegInf NegInf = False"

fun less_eq_jsnum :: "jsnum \<Rightarrow> jsnum \<Rightarrow> bool" where
  "less_eq_jsnum NaN _ = False"
| "less_eq_jsnum _ NaN = False"
| "less_eq_jsnum (Fin a) (Fin b) = (a \<le> b)"
| "less_eq_jsnum (Fin _) PosInf = True"
| "less_eq_jsnum (Fin _) NegInf = False"
| "less_eq_jsnum PosInf (Fin _) = False"
| "less_eq_jsnum PosInf PosInf = True"
| "less_eq_jsnum PosInf NegInf = False"
| "less_eq_jsnum NegInf _ = True"

instance ..

end

instantiation jsnum :: "{minus, inverse}"
begin

definition minus_jsnum :: "jsnum \<Rightarrow> jsnum \<Rightarrow> jsnum" where
  "minus_jsnum x y = x + (- y)"

definition inverse_jsnum :: "jsnum \<Rightarrow> jsnum" where
  "inverse_jsnum x = divide (Fin 1) x"

instance ..

end

text \<open>The strict equality \<open>===\<close> of the source on numbers: NaN equals nothing.\<close>

fun js_eq :: "jsnum \<Rightarrow> jsnum \<Rightarrow> bool" where
  "js_eq NaN _ = False"
| "js_eq _ NaN = False"
| "js_eq x y = (x = y)"

fun Math_sqrt :: "jsnum \<Rightarrow> jsnum" where
  "Math_sqrt (Fin a) = (if a < 0 then NaN else Fin (sqrt a))"
| "Math_sqrt PosInf = PosInf"
| "Math_sqrt NegInf = NaN"
| "Math_sqrt NaN = NaN"

fun Math_log :: "jsnum \<Rightarrow> jsnum" where
  "Math_log (Fin a) = (if a < 0 then NaN else if a = 0 then NegInf else Fin (ln a))"
| "Math_log PosInf = PosInf"
| "Math_log NegInf = NaN"
| "Math_log NaN = NaN"

text \<open>\<open>Math.exp\<close>: below \<open>-745.1332191019412\<close> the exponential is less than half the
  smallest positive double and the result is zero; above \<open>709.782712893384\<close> it exceeds the
  largest double and the result is infinite.\<close>

fun Math_exp :: "jsnum \<Rightarrow> jsnum" where
  "Math_exp (Fin a) =
     (if a < - 745.1332191019412 then Fin 0
      else if 709.782712893384 < a then PosInf
      else Fin (exp a))"
| "Math_exp PosInf = PosInf"
| "Math_exp NegInf = Fin 0"
| "Math_exp NaN = NaN"

fun Math_sin :: "jsnum \<Rightarrow> jsnum" where
  "Math_sin (Fin a) = Fin (sin a)"
| "Math_sin _ = NaN"

fun Math_ceil :: "jsnum \<Rightarrow> jsnum" where
  "Math_ceil (Fin a) = Fin (of_int \<lceil>a\<rceil>)"
| "Math_ceil x = x"

fun Math_min :: "jsnum \<Rightarrow> jsnum \<Rightarrow> jsnum" where
  "Math_min NaN _ = NaN"
| "Math_min _ NaN = NaN"
| "Math_min x y = (if x \<le> y then x else y)"

fun Math_max :: "jsnum \<Rightarrow> jsnum \<Rightarrow> jsnum" where
  "Math_max NaN _ = NaN"
| "Math_max _ NaN = NaN"
| "Math_max x y = (if x \<le> y then y else x)"

text \<open>\<open>Math.pow(x, 2)\<close>, the only use of \<open>Math.pow\<close> in the source.\<close>

definition Math_pow2 :: "jsnum \<Rightarrow> jsnum" where
  "Math_pow2 x = x * x"

text \<open>The sum of two integers held in doubles. \<open>bitLength\<close> counts the binary digits of a
  natural number; \<open>roundToDouble\<close> keeps the 53 leading digits of an integer and rounds the
  rest to nearest, a tie going to the even significand, so an integer of at most 53 digits
  is kept as it is. (An integer of more than 1024 digits would round to an infinity; that
  is not distinguished.)\<close>

fun bitLength :: "nat \<Rightarrow> nat" where
  "bitLength n = (if n = 0 then 0 else Suc (bitLength (n div 2)))"

declare bitLength.simps [simp del]

definition roundNat :: "nat \<Rightarrow> nat" where
  "roundNat n =
     (let u = 2 ^ (bitLength n - 53); q = n div u; r = n mod u
      in if u < 2 * r \<or> (u = 2 * r \<and> odd q) then (q + 1) * u else q * u)"

definition roundToDouble :: "int \<Rightarrow> int" where
  "roundToDouble n = sgn n * int (roundNat (nat \<bar>n\<bar>))"

definition addDouble :: "int \<Rightarrow> int \<Rightarrow> int" where
  "addDouble a b = roundToDouble (a + b)"

section \<open>Special functions\<close>

text \<open>\<open>normalQuantile\<close>: the rational approximation of the inverse normal CDF, with its
  three regions and the three early returns.\<close>

definition normalQuantile :: "jsnum \<Rightarrow> jsnum" where
  "normalQuantile p =
    (if p \<le> Fin 0 then NegInf
     else if Fin 1 \<le> p then PosInf
     else if js_eq p (Fin 0.5) then Fin 0
     else
       let a0 = Fin (-39.69683028665376); a1 = Fin 220.9460984245205;
           a2 = Fin (-275.9285104469687); a3 = Fin 138.3577518672690;
           a4 = Fin (-30.66479806614716); a5 = Fin 2.506628277459239;
           b0 = Fin (-54.47609879822406); b1 = Fin 161.5858368580409;
           b2 = Fin (-155.6989798598866); b3 = Fin 66.80131188771972;
           b4 = Fin (-13.28068155288572);
           c0 = Fin (-0.007784894002430293); c1 = Fin (-0.3223964580411365);
           c2 = Fin (-2.400758277161838); c3 = Fin (-2.549732539343734);
           c4 = Fin 4.374664141464968; c5 = Fin 2.938163982698783;
           d0 = Fin 0.007784695709041462; d1 = Fin 0.3224671290700398;
           d2 = Fin 2.445134137142996; d3 = Fin 3.754408661907416;
           pLow = Fin 0.02425;
           pHigh = Fin 1 - pLow
       in if p < pLow then
            let q = Math_sqrt (Fin (-2) * Math_log p)
            in (((((c0*q+c1)*q+c2)*q+c3)*q+c4)*q+c5) /
               ((((d0*q+d1)*q+d2)*q+d3)*q+Fin 1)
          else if p \<le> pHigh then
            let q = p - Fin 0.5;
                r = q * q
            in (((((a0*r+a1)*r+a2)*r+a3)*r+a4)*r+a5)*q /
               (((((b0*r+b1)*r+b2)*r+b3)*r+b4)*r+Fin 1)
          else
            let q = Math_sqrt (Fin (-2) * Math_log (Fin 1 - p))
            in - (((((c0*q+c1)*q+c2)*q+c3)*q+c4)*q+c5) /
                 ((((d0*q+d1)*q+d2)*q+d3)*q+Fin 1))"

text \<open>\<open>normalCDF\<close>: Abramowitz and Stegun 7.1.26.\<close>

definition normalCDF :: "jsnum \<Rightarrow> jsnum" where
  "normalCDF x =
    (let a1 = Fin 0.254829592; a2 = Fin (-0.284496736); a3 = Fin 1.421413741;
         a4 = Fin (-1.453152027); a5 = Fin 1.061405429; p = Fin 0.3275911;
         sign = (if x < Fin 0 then Fin (-1) else Fin 1);
         absX = \<bar>x\<bar> / Math_sqrt (Fin 2);
         t = Fin 1 / (Fin 1 + p * absX);
         y = Fin 1 - (((((a5 * t + a4) * t) + a3) * t + a2) * t + a1) * t
                       * Math_exp (- absX * absX)
     in Fin 0.5 * (Fin 1 + sign * y))"


text \<open>\<open>logGamma\<close>: Lanczos approximation, with the reflection formula below one half.\<close>

definition lanczos :: "real list" where
  "lanczos = [676.5203681218851, -1259.1392167224028, 771.32342877765313,
              -176.61502916214059, 12.507343278686905, -0.13857109526572012,
              9.9843695780195716 / 10 ^ 6, 1.5056327351493116 / 10 ^ 7]"

function logGamma :: "jsnum \<Rightarrow> jsnum" where
  "logGamma x =
    (if x < Fin 0.5 then
       Math_log (Fin pi / Math_sin (Fin pi * x)) - logGamma (Fin 1 - x)
     else
       let x1 = x - Fin 1;
           a = foldl (\<lambda>a (i, ci). a + Fin ci / (x1 + Fin (real i)))
                 (Fin 0.99999999999980993) (zip [1 ..< 9] lanczos);
           t = x1 + Fin 7 + Fin 0.5
       in Fin 0.5 * Math_log (Fin 2 * Fin pi) + (x1 + Fin 0.5) * Math_log t - t
          + Math_log a)"
  by pat_completeness auto

termination logGamma
proof (relation "measure (\<lambda>x. if x < Fin 0.5 then 1 else 0)")
  show "wf (measure (\<lambda>x. if x < Fin 0.5 then 1 else (0::nat)))"
    by simp
next
  fix x :: jsnum
  assume below: "x < Fin 0.5"
  then have "\<not> (Fin 1 - x < Fin 0.5)"
    by (cases x) (simp_all add: minus_jsnum_def)
  with below show "(Fin 1 - x, x) \<in> measure (\<lambda>x. if x < Fin 0.5 then 1 else 0)"
    by simp
qed

declare logGamma.simps [simp del]

text \<open>The series of \<open>regularizedGammaP\<close>: the loop \<open>for (n = 1; n < 100; n++)\<close> with its
  break, the state being \<open>term\<close> and \<open>sum\<close> of the source.\<close>

function gammaSeries :: "jsnum \<Rightarrow> jsnum \<Rightarrow> nat \<Rightarrow> jsnum \<Rightarrow> jsnum \<Rightarrow> jsnum" where
  "gammaSeries a x n term0 sum0 =
    (if n < 100 then
       let term1 = term0 * (x / (a + Fin (real n)));
           sum1 = sum0 + term1
       in if \<bar>term1\<bar> < Fin (1 / 10 ^ 10) then sum1
          else gammaSeries a x (n + 1) term1 sum1
     else sum0)"
  by pat_completeness auto

termination gammaSeries
  by (relation "measure (\<lambda>(a, x, n, term0, sum0). 100 - n)") simp_all

declare gammaSeries.simps [simp del]

text \<open>The continued fraction of \<open>regularizedGammaQ\<close>: the loop
  \<open>for (i = 1; i <= 100; i++)\<close> with its break, the state being \<open>b\<close>, \<open>c\<close>, \<open>d\<close>, \<open>h\<close>.\<close>

function gammaFraction ::
  "jsnum \<Rightarrow> nat \<Rightarrow> jsnum \<Rightarrow> jsnum \<Rightarrow> jsnum \<Rightarrow> jsnum \<Rightarrow> jsnum" where
  "gammaFraction a i b c d h =
    (if i \<le> 100 then
       let an = - Fin (real i) * (Fin (real i) - a);
           b1 = b + Fin 2;
           d1 = an * d + b1;
           d2 = (if \<bar>d1\<bar> < Fin (1 / 10 ^ 30) then Fin (1 / 10 ^ 30) else d1);
           c1 = b1 + an / c;
           c2 = (if \<bar>c1\<bar> < Fin (1 / 10 ^ 30) then Fin (1 / 10 ^ 30) else c1);
           d3 = Fin 1 / d2;
           del = d3 * c2;
           h1 = h * del
       in if \<bar>del - Fin 1\<bar> < Fin (1 / 10 ^ 10) then h1
          else gammaFraction a (i + 1) b1 c2 d3 h1
     else h)"
  by pat_completeness auto

termination gammaFraction
  by (relation "measure (\<lambda>(a, i, b, c, d, h). 101 - i)") simp_all

declare gammaFraction.simps [simp del]

definition regularizedGammaQ :: "jsnum \<Rightarrow> jsnum \<Rightarrow> jsnum" where
  "regularizedGammaQ a x =
    (let b = x + Fin 1 - a;
         c = Fin 1 / Fin (1 / 10 ^ 30);
         d = Fin 1 / b;
         h = gammaFraction a 1 b c d d
     in Math_exp (- x + a * Math_log x - logGamma a) * h)"

definition regularizedGammaP :: "jsnum \<Rightarrow> jsnum \<Rightarrow> jsnum" where
  "regularizedGammaP a x =
    (if js_eq x (Fin 0) then Fin 0
     else if x < a + Fin 1 then
       let sum0 = Fin 1 / a;
           sum1 = gammaSeries a x 1 sum0 sum0
       in sum1 * Math_exp (- x + a * Math_log x - logGamma a)
     else Fin 1 - regularizedGammaQ a x)"

definition chiSquaredCDF :: "jsnum \<Rightarrow> jsnum \<Rightarrow> jsnum" where
  "chiSquaredCDF x df =
    (if x \<le> Fin 0 \<or> df \<le> Fin 0 then Fin 0
     else regularizedGammaP (df / Fin 2) (x / Fin 2))"

section \<open>Spending functions and boundaries\<close>

definition lanDeMetsAlphaSpending :: "jsnum \<Rightarrow> jsnum \<Rightarrow> jsnum" where
  "lanDeMetsAlphaSpending t alpha =
    (if t \<le> Fin 0 then Fin 0
     else if Fin 1 \<le> t then alpha
     else
       let zAlpha = normalQuantile (Fin 1 - alpha / Fin 2)
       in Fin 2 * (Fin 1 - normalCDF (zAlpha / Math_sqrt t)))"

definition lanDeMetsBetaSpending :: "jsnum \<Rightarrow> jsnum \<Rightarrow> jsnum" where
  "lanDeMetsBetaSpending t beta =
    (if t \<le> Fin 0 then Fin 0
     else if Fin 1 \<le> t then beta
     else
       let zBeta = normalQuantile (Fin 1 - beta / Fin 2)
       in Fin 2 * (Fin 1 - normalCDF (zBeta / Math_sqrt t)))"

definition computeMonitoringBoundary :: "jsnum \<Rightarrow> jsnum \<Rightarrow> jsnum" where
  "computeMonitoringBoundary informationFraction alpha =
    (if informationFraction \<le> Fin 0 then Fin 10
     else if Fin 1.5 \<le> informationFraction then normalQuantile (Fin 1 - alpha / Fin 2)
     else
       let zAlpha = normalQuantile (Fin 1 - alpha / Fin 2)
       in zAlpha / Math_sqrt informationFraction)"

text \<open>The futility policy tags of \<open>TSAParams\<close>. \<open>computeFutilityBoundary\<close> takes its tag as
  an optional argument whose default is \<open>'obrien-fleming'\<close>: \<open>None\<close> is the omitted
  argument. The function tests the tag against \<open>'none'\<close> only.\<close>

datatype FutilityBoundaryType = FB_none | FB_obrien_fleming | FB_pocock | FB_conditional_power

definition computeFutilityBoundary ::
  "jsnum \<Rightarrow> jsnum \<Rightarrow> FutilityBoundaryType option \<Rightarrow> jsnum" where
  "computeFutilityBoundary informationFraction beta boundaryTypeArg =
    (let boundaryType = (case boundaryTypeArg of None \<Rightarrow> FB_obrien_fleming | Some b \<Rightarrow> b)
     in if boundaryType = FB_none then Fin 0
        else if informationFraction \<le> Fin 0 then Fin 0
        else if Fin 1 \<le> informationFraction then normalQuantile beta
        else
          let zBeta = normalQuantile (Fin 1 - beta / Fin 2);
              rawBoundary = zBeta / Math_sqrt informationFraction
          in Math_min (rawBoundary * Fin 0.5) (normalQuantile (Fin 1 - beta)))"

definition obrienFlemingBoundary :: "jsnum \<Rightarrow> jsnum \<Rightarrow> jsnum" where
  "obrienFlemingBoundary informationFraction alpha =
     computeMonitoringBoundary informationFraction alpha"


section \<open>Studies and effect estimates\<close>

text \<open>A study of \<open>types.ts\<close>. The counts and the year are integers; they enter the
  arithmetic through \<open>num_of\<close>.\<close>

record Study =
  id :: string
  name :: string
  year :: int
  eventsTrt :: int
  totalTrt :: int
  eventsCtrl :: int
  totalCtrl :: int

definition num_of :: "int \<Rightarrow> jsnum" where
  "num_of i = Fin (of_int i)"

record PooledOR =
  or :: jsnum
  se :: jsnum

record StudyOR = PooledOR +
  weight :: jsnum

definition calculateStudyOR :: "Study \<Rightarrow> StudyOR" where
  "calculateStudyOR study =
    (let a = num_of (eventsTrt study);
         b = num_of (totalTrt study) - num_of (eventsTrt study);
         c = num_of (eventsCtrl study);
         d = num_of (totalCtrl study) - num_of (eventsCtrl study);
         hasZeroCell = (js_eq a (Fin 0) \<or> js_eq b (Fin 0) \<or> js_eq c (Fin 0) \<or> js_eq d (Fin 0));
         a1 = (if hasZeroCell then a + Fin 0.5 else a);
         b1 = (if hasZeroCell then b + Fin 0.5 else b);
         c1 = (if hasZeroCell then c + Fin 0.5 else c);
         d1 = (if hasZeroCell then d + Fin 0.5 else d);
         or1 = (a1 * d1) / (b1 * c1);
         se1 = Math_sqrt (Fin 1 / a1 + Fin 1 / b1 + Fin 1 / c1 + Fin 1 / d1);
         weight1 = Fin 1 / (se1 * se1)
     in \<lparr> or = or1, se = se1, weight = weight1 \<rparr>)"

text \<open>The accumulators of \<open>calculatePooledOR\<close>, updated by the body of its \<open>forEach\<close>.\<close>

record MHSums =
  sumR :: jsnum
  sumS :: jsnum
  sumPR :: jsnum
  sumPS_QR :: jsnum
  sumQS :: jsnum

definition mhStep :: "MHSums \<Rightarrow> Study \<Rightarrow> MHSums" where
  "mhStep acc study =
    (let a = num_of (eventsTrt study);
         b = num_of (totalTrt study) - a;
         c = num_of (eventsCtrl study);
         d = num_of (totalCtrl study) - c;
         n = num_of (totalTrt study) + num_of (totalCtrl study)
     in if Fin 0 < n then
          let R_i = (a * d) / n;
              S_i = (b * c) / n;
              P_i = (a + d) / n;
              Q_i = (b + c) / n
          in \<lparr> sumR = sumR acc + R_i,
               sumS = sumS acc + S_i,
               sumPR = sumPR acc + P_i * R_i,
               sumPS_QR = sumPS_QR acc + ((P_i * S_i) + (Q_i * R_i)),
               sumQS = sumQS acc + Q_i * S_i \<rparr>
        else acc)"

definition calculatePooledOR :: "Study list \<Rightarrow> PooledOR" where
  "calculatePooledOR studies =
    (let validStudies =
           filter (\<lambda>study. \<not> (js_eq (num_of (eventsTrt study)) (Fin 0) \<and>
                                 js_eq (num_of (eventsCtrl study)) (Fin 0))) studies
     in if length validStudies = 0 then \<lparr> or = Fin 1, se = PosInf \<rparr>
        else
          let mh = foldl mhStep
                       \<lparr> sumR = Fin 0, sumS = Fin 0, sumPR = Fin 0,
                         sumPS_QR = Fin 0, sumQS = Fin 0 \<rparr> validStudies;
              R = sumR mh;
              S = sumS mh;
              or1 = (if Fin 0 < S then R / S else Fin 1);
              variance =
                (if Fin 0 < R \<and> Fin 0 < S then
                   sumPR mh / (Fin 2 * R * R)
                   + sumPS_QR mh / (Fin 2 * R * S)
                   + sumQS mh / (Fin 2 * S * S)
                 else PosInf);
              se1 = Math_sqrt variance
          in \<lparr> or = or1, se = se1 \<rparr>)"

record HeterogeneityStats =
  qStat :: jsnum
  i2 :: jsnum
  tau2 :: jsnum
  pValue :: jsnum

text \<open>The accumulators of \<open>calculateHeterogeneity\<close>: \<open>q\<close>, \<open>sumWeights\<close>,
  \<open>sumWeightsSquared\<close>.\<close>

definition hetStep :: "jsnum \<Rightarrow> jsnum \<times> jsnum \<times> jsnum \<Rightarrow> Study \<Rightarrow> jsnum \<times> jsnum \<times> jsnum" where
  "hetStep logPooledOR acc study =
    (case acc of (q0, sumWeights, sumWeightsSquared) \<Rightarrow>
       let r = calculateStudyOR study;
           logOR = Math_log (or r);
           weight1 = Fin 1 / (se r * se r)
       in (q0 + weight1 * Math_pow2 (logOR - logPooledOR),
           sumWeights + weight1,
           sumWeightsSquared + weight1 * weight1))"

definition calculateHeterogeneity :: "Study list \<Rightarrow> HeterogeneityStats" where
  "calculateHeterogeneity studies =
    (if length studies < 2 then
       \<lparr> qStat = Fin 0, i2 = Fin 0, tau2 = Fin 0, pValue = Fin 1 \<rparr>
     else
       let pooled = calculatePooledOR studies;
           logPooledOR = Math_log (or pooled)
       in case foldl (hetStep logPooledOR) (Fin 0, Fin 0, Fin 0) studies of
            (q1, sumWeights, sumWeightsSquared) \<Rightarrow>
              let df = Fin (real (length studies)) - Fin 1;
                  c = sumWeights - sumWeightsSquared / sumWeights;
                  tau2v = Math_max (Fin 0) ((q1 - df) / c);
                  i2v = Math_max (Fin 0) (Math_min (Fin 100) (((q1 - df) / q1) * Fin 100));
                  pv = Fin 1 - chiSquaredCDF q1 df
              in \<lparr> qStat = q1, i2 = i2v, tau2 = tau2v, pValue = pv \<rparr>)"

definition calculateZStatistic :: "Study list \<Rightarrow> jsnum" where
  "calculateZStatistic studies =
    (if length studies = 0 then Fin 0
     else let r = calculatePooledOR studies in Math_log (or r) / se r)"

section \<open>Required information size\<close>

text \<open>The design parameters of \<open>types.ts\<close>. The error rates, the control rate and the effect
  size are finite numbers. The heterogeneity correction is any number: the callers in
  \<open>livingReview.ts\<close> and \<open>sensitivityAnalysis.ts\<close> may leave it undefined, which the
  arithmetic of \<open>calculateRIS\<close> reads as NaN.\<close>

record TSAParams =
  alpha :: real
  beta :: real
  controlRate :: real
  effectSize :: real
  heterogeneityCorrection :: jsnum
  futilityBoundaryType :: "FutilityBoundaryType option"
  useI2Adjustment :: "bool option"

definition calculateRIS :: "TSAParams \<Rightarrow> jsnum" where
  "calculateRIS params =
    (let zAlpha = normalQuantile (Fin 1 - Fin (alpha params) / Fin 2);
         zBeta = normalQuantile (Fin 1 - Fin (beta params));
         p0 = Fin (controlRate params);
         p1 = Fin (controlRate params) * (Fin 1 - Fin (effectSize params) / Fin 100)
     in if p0 \<le> Fin 0 \<or> Fin 1 \<le> p0 \<or> p1 \<le> Fin 0 \<or> Fin 1 \<le> p1 then Fin 100000
        else
          let odds0 = p0 / (Fin 1 - p0);
              odds1 = p1 / (Fin 1 - p1);
              anticipatedOR = odds1 / odds0;
              logOR = Math_log anticipatedOR
          in if \<bar>logOR\<bar> < Fin 0.001 then Fin 100000
             else
               let varComponent = Fin 1 / (p1 * (Fin 1 - p1)) + Fin 1 / (p0 * (Fin 1 - p0));
                   nPerArm = Math_pow2 (zAlpha + zBeta) * varComponent / Math_pow2 logOR;
                   totalN = Fin 2 * nPerArm * heterogeneityCorrection params
               in Math_ceil totalN)"

section \<open>The sequential driver\<close>

text \<open>Decimal printing of integers, for the template strings of the source.\<close>

definition digitChar :: "nat \<Rightarrow> char" where
  "digitChar d = char_of (d + 48)"

fun decimal :: "nat \<Rightarrow> string" where
  "decimal n = (if 10 \<le> n then decimal (n div 10) @ [digitChar (n mod 10)] else [digitChar n])"

declare decimal.simps [simp del]

definition showInteger :: "int \<Rightarrow> string" where
  "showInteger i = (if 0 \<le> i then decimal (nat i) else CHR ''-'' # decimal (nat (- i)))"

text \<open>\<open>x.toFixed(0)\<close>: the nearest integer, ties away from zero, printed in decimal, with
  the names of the special values. (Above \<open>10^21\<close> the source prints exponent notation;
  the model prints the digits.)\<close>

fun toFixed0 :: "jsnum \<Rightarrow> string" where
  "toFixed0 (Fin r) = (if r < 0 then ''-'' else []) @ decimal (nat \<lfloor>\<bar>r\<bar> + 1 / 2\<rfloor>)"
| "toFixed0 PosInf = ''Infinity''"
| "toFixed0 NegInf = ''-Infinity''"
| "toFixed0 NaN = ''NaN''"

record CumulativeDataPoint =
  study :: string
  patients :: jsnum
  informationFraction :: jsnum
  zStatistic :: jsnum
  monitoringBoundary :: jsnum
  futilityBoundary :: jsnum
  pooledOR :: jsnum
  ci95Lower :: jsnum
  ci95Upper :: jsnum
  alphaSpent :: jsnum
  betaSpent :: jsnum

record TSAInterpretation =
  type :: string
  title :: string
  message :: string

record TSAResults =
  ris :: jsnum
  totalPatients :: jsnum
  finalInformationFraction :: jsnum
  finalPooledOR :: jsnum
  finalCi95Lower :: jsnum
  finalCi95Upper :: jsnum
  finalZ :: jsnum
  cumulativeData :: "CumulativeDataPoint list"
  tsaInterpretation :: TSAInterpretation
  heterogeneity :: HeterogeneityStats

text \<open>The body of the loop of \<open>calculateTSA\<close> at index \<open>i\<close>, after \<open>cumulativeN\<close> has been
  increased to \<open>cumulativeN1\<close>: the record that is pushed.\<close>

definition tsaPoint :: "Study list \<Rightarrow> TSAParams \<Rightarrow> jsnum \<Rightarrow> nat \<Rightarrow> jsnum \<Rightarrow> CumulativeDataPoint" where
  "tsaPoint studies params risv i cumulativeN1 =
    (let cumulativeStudies = take (i + 1) studies;
         r = calculatePooledOR cumulativeStudies;
         zStat = (if Fin 0 < se r \<and> se r < PosInf then Math_log (or r) / se r else Fin 0);
         fraction = cumulativeN1 / risv;
         mb = computeMonitoringBoundary fraction (Fin (alpha params));
         fb = computeFutilityBoundary fraction (Fin (beta params)) None;
         aSpent = lanDeMetsAlphaSpending fraction (Fin (alpha params));
         bSpent = lanDeMetsBetaSpending fraction (Fin (beta params))
     in \<lparr> study = name (studies ! i) @ '' ('' @ showInteger (year (studies ! i)) @ '')'',
          patients = cumulativeN1,
          informationFraction = fraction,
          zStatistic = zStat,
          monitoringBoundary = mb,
          futilityBoundary = fb,
          pooledOR = or r,
          ci95Lower = Math_exp (Math_log (or r) - Fin 1.96 * se r),
          ci95Upper = Math_exp (Math_log (or r) + Fin 1.96 * se r),
          alphaSpent = aSpent,
          betaSpent = bSpent \<rparr>)"

text \<open>The loop \<open>for (let i = 0; i < studies.length; i++)\<close> of \<open>calculateTSA\<close>; its state is
  \<open>cumulativeN\<close> and the trace \<open>cumulativeData\<close>, to which each turn appends one record.
  \<open>cumulativeN += totalTrt + totalCtrl\<close> is two additions of doubles holding integers.\<close>

function tsaLoop ::
  "Study list \<Rightarrow> TSAParams \<Rightarrow> jsnum \<Rightarrow> nat \<Rightarrow> int \<Rightarrow> CumulativeDataPoint list
     \<Rightarrow> CumulativeDataPoint list" where
  "tsaLoop studies params risv i cumulativeN trace =
    (if i < length studies then
       let cumulativeN1 = addDouble cumulativeN
                            (addDouble (totalTrt (studies ! i)) (totalCtrl (studies ! i)))
       in tsaLoop studies params risv (i + 1) cumulativeN1
            (trace @ [tsaPoint studies params risv i (num_of cumulativeN1)])
     else trace)"
  by pat_completeness auto

termination tsaLoop
  by (relation "measure (\<lambda>(studies, params, risv, i, cumulativeN, trace). length studies - i)")
     simp_all

declare tsaLoop.simps [simp del]

text \<open>The interpretation of \<open>calculateTSA\<close>, read off the record \<open>lastp\<close>.\<close>

definition interpretationOf :: "CumulativeDataPoint \<Rightarrow> TSAInterpretation" where
  "interpretationOf lastp =
    (let percentComplete = toFixed0 (informationFraction lastp * Fin 100)
     in if monitoringBoundary lastp < \<bar>zStatistic lastp\<bar> then
          \<lparr> type = (if Fin 0 < zStatistic lastp then ''conclusive-benefit''
                     else ''conclusive-harm''),
            title = (if Fin 0 < zStatistic lastp then ''Conclusive: Favors Treatment''
                     else ''Conclusive: Favors Control''),
            message = ''The Z-curve has crossed the O'' @ [CHR 0x27]
                      @ ''Brien-Fleming monitoring boundary at '' @ percentComplete
                      @ ''% information, providing conclusive evidence with Type I error control.'' \<rparr>
        else if Fin 0 < futilityBoundary lastp \<and> \<bar>zStatistic lastp\<bar> < futilityBoundary lastp then
          \<lparr> type = ''futility'',
            title = ''Futility: Treatments Likely Similar'',
            message = ''The Z-curve is within the futility boundary at '' @ percentComplete
                      @ ''% information, indicating the anticipated effect is unlikely to exist.'' \<rparr>
        else
          \<lparr> type = ''inconclusive'',
            title = ''Inconclusive'',
            message = ''More studies needed ('' @ percentComplete
                      @ ''% of required information). The Z-curve has not crossed monitoring or futility boundaries.'' \<rparr>)"

definition calculateTSA :: "Study list \<Rightarrow> TSAParams \<Rightarrow> TSAResults option" where
  "calculateTSA studies params =
    (if length studies = 0 then None
     else
       let het = calculateHeterogeneity studies;
           risv = calculateRIS params;
           trace = tsaLoop studies params risv 0 0 [];
           lastp = trace ! (length trace - 1)
       in Some \<lparr> ris = risv,
                 totalPatients = patients lastp,
                 finalInformationFraction = informationFraction lastp,
                 finalPooledOR = pooledOR lastp,
                 finalCi95Lower = ci95Lower lastp,
                 finalCi95Upper = ci95Upper lastp,
                 finalZ = zStatistic lastp,
                 cumulativeData = trace,
                 tsaInterpretation = interpretationOf lastp,
                 heterogeneity = het \<rparr>)"

section \<open>Auxiliary notions for the statements\<close>

text \<open>The value of \<open>cumulativeN\<close> after \<open>n\<close> turns of the loop that start at index \<open>i\<close> with
  the value \<open>c\<close>, and the value \<open>patientsUpTo studies c i k\<close> it has when the record of
  study \<open>k\<close> is pushed.\<close>

primrec countAfter :: "Study list \<Rightarrow> int \<Rightarrow> nat \<Rightarrow> nat \<Rightarrow> int" where
  "countAfter studies c i 0 = c"
| "countAfter studies c i (Suc n) =
     addDouble (countAfter studies c i n)
       (addDouble (totalTrt (studies ! (i + n))) (totalCtrl (studies ! (i + n))))"

definition patientsUpTo :: "Study list \<Rightarrow> int \<Rightarrow> nat \<Rightarrow> nat \<Rightarrow> int" where
  "patientsUpTo studies c i k = countAfter studies c i (Suc k - i)"

text \<open>The three studies and the design parameters of the repository's test of
  \<open>calculateTSA\<close>.\<close>

definition exampleStudies :: "Study list" where
  "exampleStudies =
    [\<lparr> id = ''1'', name = ''Study1'', year = 2020,
       eventsTrt = 20, totalTrt = 200, eventsCtrl = 35, totalCtrl = 200 \<rparr>,
     \<lparr> id = ''2'', name = ''Study2'', year = 2021,
       eventsTrt = 15, totalTrt = 150, eventsCtrl = 28, totalCtrl = 150 \<rparr>,
     \<lparr> id = ''3'', name = ''Study3'', year = 2022,
       eventsTrt = 12, totalTrt = 100, eventsCtrl = 22, totalCtrl = 100 \<rparr>]"

definition exampleParams :: TSAParams where
  "exampleParams =
    \<lparr> alpha = 0.05, beta = 0.20, controlRate = 0.15, effectSize = 35,
      heterogeneityCorrection = Fin 1.2, futilityBoundaryType = None, useI2Adjustment = None \<rparr>"

text \<open>Sums of numbers of the source over a list: addition is associative and commutative
  with the zero of the source as unit.\<close>

instantiation jsnum :: comm_monoid_add
begin

definition zero_jsnum :: jsnum where
  "zero_jsnum = Fin 0"

instance
proof
  fix x y z :: jsnum
  show "x + y = y + x"
    by (cases x; cases y; simp)
  show "0 + x = x"
    by (cases x; simp add: zero_jsnum_def)
  show "x + y + z = x + (y + z)"
    by (cases x; cases y; cases z; simp)
qed

end

subsection \<open>Study-level estimate, in the words of the specification\<close>

text \<open>The four cells of the 2x2 table, and the cells after the conditional continuity
  correction: one half is added to all four when at least one is zero, to none
  otherwise.\<close>

definition rawCells :: "Study \<Rightarrow> real \<times> real \<times> real \<times> real" where
  "rawCells s = (real_of_int (eventsTrt s), real_of_int (totalTrt s - eventsTrt s),
                 real_of_int (eventsCtrl s), real_of_int (totalCtrl s - eventsCtrl s))"

definition correctedCells :: "Study \<Rightarrow> real \<times> real \<times> real \<times> real" where
  "correctedCells s =
    (case rawCells s of (a, b, c, d) \<Rightarrow>
       if a = 0 \<or> b = 0 \<or> c = 0 \<or> d = 0 then (a + 1 / 2, b + 1 / 2, c + 1 / 2, d + 1 / 2)
       else (a, b, c, d))"

text \<open>The invariant of a study in the data model: counts are not negative, events do not
  exceed totals, totals are positive.\<close>

definition validStudy :: "Study \<Rightarrow> bool" where
  "validStudy s \<longleftrightarrow> 0 \<le> eventsTrt s \<and> eventsTrt s \<le> totalTrt s \<and> 0 < totalTrt s \<and>
                   0 \<le> eventsCtrl s \<and> eventsCtrl s \<le> totalCtrl s \<and> 0 < totalCtrl s"

subsection \<open>Mantel-Haenszel pooling, in the words of the specification\<close>

definition retainedStudies :: "Study list \<Rightarrow> Study list" where
  "retainedStudies studies = filter (\<lambda>s. \<not> (eventsTrt s = 0 \<and> eventsCtrl s = 0)) studies"

definition countedStudies :: "Study list \<Rightarrow> Study list" where
  "countedStudies studies = filter (\<lambda>s. 0 < totalTrt s + totalCtrl s) studies"

definition cellA :: "Study \<Rightarrow> jsnum" where
  "cellA s = num_of (eventsTrt s)"

definition cellB :: "Study \<Rightarrow> jsnum" where
  "cellB s = num_of (totalTrt s) - num_of (eventsTrt s)"

definition cellC :: "Study \<Rightarrow> jsnum" where
  "cellC s = num_of (eventsCtrl s)"

definition cellD :: "Study \<Rightarrow> jsnum" where
  "cellD s = num_of (totalCtrl s) - num_of (eventsCtrl s)"

definition cellN :: "Study \<Rightarrow> jsnum" where
  "cellN s = num_of (totalTrt s) + num_of (totalCtrl s)"

definition termR :: "Study \<Rightarrow> jsnum" where
  "termR s = (cellA s * cellD s) / cellN s"

definition termS :: "Study \<Rightarrow> jsnum" where
  "termS s = (cellB s * cellC s) / cellN s"

definition termP :: "Study \<Rightarrow> jsnum" where
  "termP s = (cellA s + cellD s) / cellN s"

definition termQ :: "Study \<Rightarrow> jsnum" where
  "termQ s = (cellB s + cellC s) / cellN s"

text \<open>The Mantel-Haenszel odds ratio and the Robins-Breslow-Greenland standard error of the
  studies that enter the sums, from the raw counts.\<close>

definition mantelHaenszel :: "Study list \<Rightarrow> PooledOR" where
  "mantelHaenszel counted =
    (let R = (\<Sum>s\<leftarrow>counted. termR s);
         S = (\<Sum>s\<leftarrow>counted. termS s);
         sPR = (\<Sum>s\<leftarrow>counted. termP s * termR s);
         sPSQR = (\<Sum>s\<leftarrow>counted. termP s * termS s + termQ s * termR s);
         sQS = (\<Sum>s\<leftarrow>counted. termQ s * termS s)
     in \<lparr> or = (if Fin 0 < S then R / S else Fin 1),
          se = Math_sqrt (if Fin 0 < R \<and> Fin 0 < S
                          then sPR / (Fin 2 * R * R) + sPSQR / (Fin 2 * R * S) + sQS / (Fin 2 * S * S)
                          else PosInf) \<rparr>)"

text \<open>The pooled estimate as the claim words it: every retained study enters the sums.\<close>

definition pooledOR_claimed :: "Study list \<Rightarrow> PooledOR" where
  "pooledOR_claimed studies =
     (if retainedStudies studies = [] then \<lparr> or = Fin 1, se = PosInf \<rparr>
      else mantelHaenszel (retainedStudies studies))"

text \<open>The pooled estimate with the guard of the source: a retained study enters the sums
  only when its combined total is positive.\<close>

definition pooledOR_counted :: "Study list \<Rightarrow> PooledOR" where
  "pooledOR_counted studies =
     (if retainedStudies studies = [] then \<lparr> or = Fin 1, se = PosInf \<rparr>
      else mantelHaenszel (countedStudies (retainedStudies studies)))"

text \<open>A valid study followed by a record whose two totals are zero although each arm
  reports one event.\<close>

definition skippedExample :: "Study list" where
  "skippedExample =
    [\<lparr> id = ''1'', name = ''Study1'', year = 2020,
       eventsTrt = 20, totalTrt = 200, eventsCtrl = 35, totalCtrl = 200 \<rparr>,
     \<lparr> id = ''2'', name = ''Study2'', year = 2021,
       eventsTrt = 1, totalTrt = 0, eventsCtrl = 1, totalCtrl = 0 \<rparr>]"

subsection \<open>Required information size, in the words of the specification\<close>

definition anticipatedOR :: "real \<Rightarrow> real \<Rightarrow> real" where
  "anticipatedOR p0 p1 = (p1 / (1 - p1)) / (p0 / (1 - p0))"

definition varComponent :: "real \<Rightarrow> real \<Rightarrow> real" where
  "varComponent p0 p1 = 1 / (p1 * (1 - p1)) + 1 / (p0 * (1 - p0))"

text \<open>The single-zero-cell study of the repository's tests.\<close>

definition zeroCellStudy :: Study where
  "zeroCellStudy =
    \<lparr> id = ''1'', name = ''Test'', year = 2020,
      eventsTrt = 0, totalTrt = 50, eventsCtrl = 10, totalCtrl = 50 \<rparr>"







text \<open>One study with the same event rate in both arms, and the design parameters of the
  tests with the futility policy set to \<open>'none'\<close>.\<close>

definition nullEffectExample :: "Study list" where
  "nullEffectExample =
    [\<lparr> id = ''1'', name = ''Null'', year = 2020,
       eventsTrt = 30, totalTrt = 200, eventsCtrl = 30, totalCtrl = 200 \<rparr>]"

definition noFutilityParams :: TSAParams where
  "noFutilityParams = exampleParams \<lparr> futilityBoundaryType := Some FB_none \<rparr>"

subsection \<open>The special functions on finite arguments\<close>

text \<open>The polynomials of \<open>normalQuantile\<close> and \<open>normalCDF\<close> over the reals, and the values
  the two functions take on finite arguments inside their domains.\<close>

definition centralNum :: "real \<Rightarrow> real" where
  "centralNum r = ((((-39.69683028665376 * r + 220.9460984245205) * r + -275.9285104469687) * r
                     + 138.3577518672690) * r + -30.66479806614716) * r + 2.506628277459239"

definition centralDen :: "real \<Rightarrow> real" where
  "centralDen r = ((((-54.47609879822406 * r + 161.5858368580409) * r + -155.6989798598866) * r
                     + 66.80131188771972) * r + -13.28068155288572) * r + 1"

definition tailNum :: "real \<Rightarrow> real" where
  "tailNum q = ((((-0.007784894002430293 * q + -0.3223964580411365) * q + -2.400758277161838) * q
                  + -2.549732539343734) * q + 4.374664141464968) * q + 2.938163982698783"

definition tailDen :: "real \<Rightarrow> real" where
  "tailDen q = (((0.007784695709041462 * q + 0.3224671290700398) * q + 2.445134137142996) * q
                  + 3.754408661907416) * q + 1"

definition normalQuantile_real :: "real \<Rightarrow> real" where
  "normalQuantile_real p =
     (if p = 1 / 2 then 0
      else if p < 0.02425 then (let q = sqrt (- 2 * ln p) in tailNum q / tailDen q)
      else if p \<le> 1 - 0.02425 then (let q = p - 1 / 2 in centralNum (q * q) * q / centralDen (q * q))
      else (let q = sqrt (- 2 * ln (1 - p)) in - tailNum q / tailDen q))"

definition cdfPoly :: "real \<Rightarrow> real" where
  "cdfPoly t = ((((1.061405429 * t + -1.453152027) * t + 1.421413741) * t + -0.284496736) * t
                 + 0.254829592) * t"

definition expUnderflow :: "real \<Rightarrow> real" where
  "expUnderflow a = (if a < - 745.1332191019412 then 0 else exp a)"

definition normalCDF_real :: "real \<Rightarrow> real" where
  "normalCDF_real x =
     (let absX = \<bar>x\<bar> / sqrt 2;
          t = 1 / (1 + 0.3275911 * absX);
          y = 1 - cdfPoly t * expUnderflow (- absX * absX)
      in 0.5 * (1 + (if x < 0 then - 1 else 1) * y))"

definition cdfPoly' :: "real \<Rightarrow> real" where
  "cdfPoly' t = 0.254829592 + 2 * -0.284496736 * t + 3 * 1.421413741 * t\<^sup>2
                + 4 * -1.453152027 * t ^ 3 + 5 * 1.061405429 * t ^ 4"

section \<open>Rounding of the patient count\<close>

text \<open>\<open>bitLength\<close> is the number of binary digits.\<close>

lemma bitLength_zero: "bitLength 0 = 0"
  by (simp add: bitLength.simps)


lemma bitLength_lower: "0 < n \<Longrightarrow> 2 ^ (bitLength n - 1) \<le> n"
proof (induction n rule: bitLength.induct)
  case (1 n)
  then have nz: "n \<noteq> 0" by simp
  show ?case
  proof (cases "n div 2 = 0")
    case True
    then have "bitLength n = 1"
      using nz by (subst bitLength.simps) (simp add: bitLength_zero)
    then show ?thesis using 1(2) by simp
  next
    case False
    then have "2 ^ (bitLength (n div 2) - 1) \<le> n div 2"
      using 1(1)[OF nz] by simp
    moreover have "0 < bitLength (n div 2)"
      using False by (subst bitLength.simps) simp
    ultimately have "2 ^ bitLength (n div 2) \<le> 2 * (n div 2)"
      by (cases "bitLength (n div 2)") simp_all
    then have "2 ^ bitLength (n div 2) \<le> n"
      by linarith
    then show ?thesis
      using nz by (subst bitLength.simps) simp
  qed
qed

lemma bitLength_le: "n < 2 ^ k \<Longrightarrow> bitLength n \<le> k"
proof (rule ccontr)
  assume n: "n < 2 ^ k" and "\<not> bitLength n \<le> k"
  then have k: "k \<le> bitLength n - 1" and pos: "0 < bitLength n" by simp_all
  have "0 < n"
    using pos by (cases "n = 0") (simp_all add: bitLength_zero)
  then have "2 ^ (bitLength n - 1) \<le> n"
    by (rule bitLength_lower)
  moreover have "(2::nat) ^ k \<le> 2 ^ (bitLength n - 1)"
    using k by (simp add: power_increasing)
  ultimately show False using n by linarith
qed




text \<open>Rounding keeps an integer of at most 53 digits, and every multiple of the unit of
  its last kept digit; its result lies between the two neighbouring multiples.\<close>

lemma roundNat_small: "n < 2 ^ 53 \<Longrightarrow> roundNat n = n"
proof -
  assume "n < 2 ^ 53"
  then have "bitLength n - 53 = 0"
    using bitLength_le[of n 53] by simp
  then show ?thesis
    by (simp add: roundNat_def)
qed












text \<open>The same facts for the non-negative integers of the patient count.\<close>

lemma roundToDouble_nonneg:
  assumes "0 \<le> n"
  shows "roundToDouble n = int (roundNat (nat n))"
proof (cases "n = 0")
  case True
  then show ?thesis
    by (simp add: roundToDouble_def roundNat_def bitLength_zero)
next
  case False
  then have "sgn n = 1" using assms by simp
  then show ?thesis
    using assms by (simp add: roundToDouble_def)
qed

lemma roundToDouble_small:
  assumes "0 \<le> n" and "n < 2 ^ 53"
  shows "roundToDouble n = n"
proof -
  have "nat n < 2 ^ 53"
    using assms by (simp add: nat_less_iff)
  then show ?thesis
    using assms(1) by (simp add: roundToDouble_nonneg roundNat_small)
qed



lemma addDouble_small:
  assumes "0 \<le> a + b" and "a + b < 2 ^ 53"
  shows "addDouble a b = a + b"
  unfolding addDouble_def using assms by (rule roundToDouble_small)





section \<open>The trace of the driver\<close>

lemma tsaLoop_step:
  "i < length studies \<Longrightarrow>
   tsaLoop studies params risv i cumulativeN trace =
   tsaLoop studies params risv (Suc i)
     (addDouble cumulativeN (addDouble (totalTrt (studies ! i)) (totalCtrl (studies ! i))))
     (trace @ [tsaPoint studies params risv i
        (num_of (addDouble cumulativeN
                   (addDouble (totalTrt (studies ! i)) (totalCtrl (studies ! i)))))])"
  by (subst tsaLoop.simps) (simp add: Let_def)

lemma tsaLoop_done:
  "\<not> i < length studies \<Longrightarrow> tsaLoop studies params risv i cumulativeN trace = trace"
  by (subst tsaLoop.simps) simp

lemma tsaLoop_length:
  "length (tsaLoop studies params risv i cumulativeN trace) = length trace + (length studies - i)"
proof (induction studies params risv i cumulativeN trace rule: tsaLoop.induct)
  case (1 studies params risv i cumulativeN trace)
  show ?case
  proof (cases "i < length studies")
    case True
    then show ?thesis
      using 1[OF True refl] by (simp add: tsaLoop_step)
  next
    case False
    then show ?thesis by (simp add: tsaLoop_done)
  qed
qed

text \<open>A loop that starts one study later with the count increased starts from the same
  values.\<close>

lemma countAfter_shift:
  "countAfter studies
     (addDouble c (addDouble (totalTrt (studies ! i)) (totalCtrl (studies ! i)))) (Suc i) n
   = countAfter studies c i (Suc n)"
  by (induction n) simp_all

text \<open>The loop started at index \<open>i\<close> with the count \<open>c\<close> appends, for each remaining index,
  the record built from the running count.\<close>

lemma tsaLoop_trace:
  "tsaLoop studies params risv i c trace =
   trace @ map (\<lambda>k. tsaPoint studies params risv k (num_of (patientsUpTo studies c i k)))
             [i ..< length studies]"
proof (induction "length studies - i" arbitrary: i c trace)
  case 0
  then show ?case by (simp add: tsaLoop_done)
next
  case (Suc m)
  then have lt: "i < length studies" and m: "m = length studies - Suc i"
    by simp_all
  let ?c1 = "addDouble c (addDouble (totalTrt (studies ! i)) (totalCtrl (studies ! i)))"
  have shift: "patientsUpTo studies ?c1 (Suc i) k = patientsUpTo studies c i k" if "Suc i \<le> k" for k
  proof -
    have "Suc k - i = Suc (Suc k - Suc i)"
      using that by simp
    then show ?thesis
      unfolding patientsUpTo_def by (simp only: countAfter_shift)
  qed
  have first: "patientsUpTo studies c i i = ?c1"
    by (simp add: patientsUpTo_def)
  have "tsaLoop studies params risv i c trace =
        tsaLoop studies params risv (Suc i) ?c1
          (trace @ [tsaPoint studies params risv i (num_of ?c1)])"
    using lt by (simp add: tsaLoop_step)
  also have "\<dots> = (trace @ [tsaPoint studies params risv i (num_of ?c1)]) @
        map (\<lambda>k. tsaPoint studies params risv k (num_of (patientsUpTo studies ?c1 (Suc i) k)))
          [Suc i ..< length studies]"
    by (rule Suc.hyps(1)[OF m])
  also have "map (\<lambda>k. tsaPoint studies params risv k (num_of (patientsUpTo studies ?c1 (Suc i) k)))
          [Suc i ..< length studies] =
        map (\<lambda>k. tsaPoint studies params risv k (num_of (patientsUpTo studies c i k)))
          [Suc i ..< length studies]"
    by (rule map_cong) (simp_all add: shift)
  finally show ?case
    using lt by (simp add: upt_conv_Cons first)
qed

lemma calculateTSA_trace:
  assumes "studies \<noteq> []"
  shows "\<exists>r. calculateTSA studies params = Some r \<and>
             cumulativeData r =
               map (\<lambda>k. tsaPoint studies params (calculateRIS params) k
                          (num_of (patientsUpTo studies 0 0 k))) [0 ..< length studies] \<and>
             ris r = calculateRIS params \<and>
             heterogeneity r = calculateHeterogeneity studies \<and>
             tsaInterpretation r = interpretationOf (last (cumulativeData r))"
proof -
  have tr: "tsaLoop studies params (calculateRIS params) 0 0 [] =
            map (\<lambda>k. tsaPoint studies params (calculateRIS params) k
                          (num_of (patientsUpTo studies 0 0 k))) [0 ..< length studies]"
    by (simp add: tsaLoop_trace)
  have ne: "tsaLoop studies params (calculateRIS params) 0 0 [] \<noteq> []"
    using assms tsaLoop_length[of studies params "calculateRIS params" 0 0 "[]"]
    by (metis add_cancel_left_left diff_zero length_0_conv)
  show ?thesis
    using assms ne tr
    by (simp add: calculateTSA_def Let_def last_conv_nth del: upt.simps)
qed

section \<open>The special functions on finite arguments\<close>

lemma centralNum_shift:
  "centralNum r = (let w = 1 / 4 - r in ((((((124052594645793 / 3125000000000) * w + (1713250605662033 / 10000000000000)) * w + (199482327379017 / 2500000000000)) * w + (645082096715841 / 80000000000000)) * w + (150972325058373 / 800000000000000)) * w + (45410434358301 / 64000000000000000)))"
  unfolding centralNum_def Let_def by (simp add: field_simps)

lemma centralDen_shift:
  "centralDen r = (let w = 1 / 4 - r in ((((((2723804939911203 / 50000000000000) * w + (3739628534410433 / 40000000000000)) * w + (2252856380058859 / 80000000000000)) * w + (3375800603756157 / 1600000000000000)) * w + (492234672382143 / 12800000000000000)) * w + (1130541510717 / 10240000000000000)))"
  unfolding centralDen_def Let_def by (simp add: field_simps)

lemma shifted_pos:
  fixes w :: real
  assumes "0 \<le> w" "0 \<le> e5" "0 \<le> e4" "0 \<le> e3" "0 \<le> e2" "0 \<le> e1" "0 < e0"
  shows "0 < ((((e5 * w + e4) * w + e3) * w + e2) * w + e1) * w + e0"
proof -
  have "0 \<le> e5 * w + e4" using assms by simp
  then have "0 \<le> (e5 * w + e4) * w + e3" using assms by simp
  then have "0 \<le> ((e5 * w + e4) * w + e3) * w + e2" using assms by simp
  then have "0 \<le> (((e5 * w + e4) * w + e3) * w + e2) * w + e1" using assms by simp
  then have "0 \<le> ((((e5 * w + e4) * w + e3) * w + e2) * w + e1) * w" using assms by simp
  then show ?thesis using assms by linarith
qed

lemma centralNum_pos: "r \<le> 1 / 4 \<Longrightarrow> 0 < centralNum r"
  unfolding centralNum_shift Let_def by (rule shifted_pos) simp_all

lemma centralDen_pos: "r \<le> 1 / 4 \<Longrightarrow> 0 < centralDen r"
  unfolding centralDen_shift Let_def by (rule shifted_pos) simp_all

lemma tailDen_pos: "0 \<le> q \<Longrightarrow> 0 < tailDen q"
proof -
  assume q: "0 \<le> q"
  have "0 \<le> 0.007784695709041462 * q + 0.3224671290700398" using q by simp
  then have "0 \<le> (0.007784695709041462 * q + 0.3224671290700398) * q + 2.445134137142996"
    using q by simp
  then have "0 \<le> ((0.007784695709041462 * q + 0.3224671290700398) * q + 2.445134137142996) * q
                  + 3.754408661907416"
    using q by simp
  then have "0 \<le> (((0.007784695709041462 * q + 0.3224671290700398) * q + 2.445134137142996) * q
                  + 3.754408661907416) * q"
    using q by simp
  then show ?thesis unfolding tailDen_def by linarith
qed

lemma central_Fin:
  assumes "centralDen (q * q) \<noteq> 0"
  shows "(((((Fin (-39.69683028665376) * (Fin q * Fin q) + Fin 220.9460984245205) * (Fin q * Fin q)
            + Fin (-275.9285104469687)) * (Fin q * Fin q) + Fin 138.3577518672690) * (Fin q * Fin q)
            + Fin (-30.66479806614716)) * (Fin q * Fin q) + Fin 2.506628277459239) * Fin q /
         (((((Fin (-54.47609879822406) * (Fin q * Fin q) + Fin 161.5858368580409) * (Fin q * Fin q)
            + Fin (-155.6989798598866)) * (Fin q * Fin q) + Fin 66.80131188771972) * (Fin q * Fin q)
            + Fin (-13.28068155288572)) * (Fin q * Fin q) + Fin 1)
         = Fin (centralNum (q * q) * q / centralDen (q * q))"
  using assms by (simp add: centralNum_def centralDen_def)

lemma tail_Fin:
  assumes "tailDen q \<noteq> 0"
  shows "(((((Fin (-0.007784894002430293) * Fin q + Fin (-0.3223964580411365)) * Fin q
            + Fin (-2.400758277161838)) * Fin q + Fin (-2.549732539343734)) * Fin q
            + Fin 4.374664141464968) * Fin q + Fin 2.938163982698783) /
         ((((Fin 0.007784695709041462 * Fin q + Fin 0.3224671290700398) * Fin q
            + Fin 2.445134137142996) * Fin q + Fin 3.754408661907416) * Fin q + Fin 1)
         = Fin (tailNum q / tailDen q)"
  using assms by (simp add: tailNum_def tailDen_def)

lemma tail_neg_Fin:
  assumes "tailDen q \<noteq> 0"
  shows "- (((((Fin (-0.007784894002430293) * Fin q + Fin (-0.3223964580411365)) * Fin q
            + Fin (-2.400758277161838)) * Fin q + Fin (-2.549732539343734)) * Fin q
            + Fin 4.374664141464968) * Fin q + Fin 2.938163982698783) /
         ((((Fin 0.007784695709041462 * Fin q + Fin 0.3224671290700398) * Fin q
            + Fin 2.445134137142996) * Fin q + Fin 3.754408661907416) * Fin q + Fin 1)
         = Fin (- tailNum q / tailDen q)"
  using assms by (simp add: tailNum_def tailDen_def)

lemma normalQuantile_Fin:
  assumes "0 < p" and "p < 1"
  shows "normalQuantile (Fin p) = Fin (normalQuantile_real p)"
proof -
  consider (half) "p = 1 / 2" | (low) "p < 0.02425" | (mid) "p \<noteq> 1 / 2" "0.02425 \<le> p" "p \<le> 1 - 0.02425"
    | (high) "1 - 0.02425 < p"
    by linarith
  then show ?thesis
  proof cases
    case half
    then show ?thesis
      by (simp add: normalQuantile_def normalQuantile_real_def)
  next
    case low
    have lnneg: "ln p < 0" using assms by simp
    define q where "q = sqrt (- 2 * ln p)"
    have q0: "0 \<le> q" using lnneg by (simp add: q_def)
    have sq: "Math_sqrt (Fin (- 2) * Math_log (Fin p)) = Fin q"
      using assms lnneg by (simp add: q_def)
    have den: "tailDen q \<noteq> 0" using tailDen_pos[OF q0] by simp
    show ?thesis
      using low assms
      unfolding normalQuantile_def Let_def sq tail_Fin[OF den]
      by (simp add: normalQuantile_real_def q_def Let_def)
  next
    case mid
    define q where "q = p - 1 / 2"
    have "q \<le> 0.47575" and "- 0.47575 \<le> q"
      using mid by (simp_all add: q_def)
    then have "\<bar>q\<bar> \<le> 0.47575"
      by (simp add: abs_le_iff)
    then have "\<bar>q\<bar> * \<bar>q\<bar> \<le> 0.47575 * 0.47575"
      by (intro mult_mono) simp_all
    then have "q * q \<le> 1 / 4"
      by simp
    then have den: "centralDen (q * q) \<noteq> 0"
      using centralDen_pos[of "q * q"] by simp
    have pq: "Fin p - Fin 0.5 = Fin q"
      by (simp add: q_def minus_jsnum_def)
    show ?thesis
      using mid assms
      unfolding normalQuantile_def Let_def pq central_Fin[OF den]
      by (simp add: normalQuantile_real_def q_def minus_jsnum_def Let_def)
  next
    case high
    have lnneg: "ln (1 - p) < 0" using assms by simp
    define q where "q = sqrt (- 2 * ln (1 - p))"
    have q0: "0 \<le> q" using lnneg by (simp add: q_def)
    have sq: "Math_sqrt (Fin (- 2) * Math_log (Fin 1 - Fin p)) = Fin q"
      using assms lnneg by (simp add: q_def minus_jsnum_def)
    have den: "tailDen q \<noteq> 0" using tailDen_pos[OF q0] by simp
    show ?thesis
      using high assms
      unfolding normalQuantile_def Let_def sq tail_neg_Fin[OF den]
      by (simp add: normalQuantile_real_def q_def minus_jsnum_def Let_def)
  qed
qed

lemma tailNum_shift:
  "- tailNum q = (let w = q - 2 in ((((((7784894002430293 / 1000000000000000000) * w + (40024539806543943 / 100000000000000000)) * w + (132283142539703543 / 25000000000000000)) * w + (39554044867963221 / 1562500000000000)) * w + (569660543992035193 / 12500000000000000)) * w + (2890620505722109297 / 125000000000000000)))"
  unfolding tailNum_def Let_def by (simp add: field_simps)

lemma tailNum_neg: "2 \<le> q \<Longrightarrow> tailNum q < 0"
proof -
  assume "2 \<le> q"
  then have "0 < - tailNum q"
    unfolding tailNum_shift Let_def by (intro shifted_pos) simp_all
  then show ?thesis by simp
qed

lemma tail_argument:
  assumes "0 < x" and "x < 0.02425"
  shows "2 \<le> sqrt (- 2 * ln x)"
proof -
  have "exp (2::real) = exp 1 * exp 1"
    by (simp flip: exp_add)
  also have "\<dots> \<le> 3 * 3"
    by (intro mult_mono exp_le) simp_all
  finally have e2: "exp (2::real) \<le> 9" by simp
  have "x < 1 / 9" using assms by simp
  also have "\<dots> \<le> 1 / exp 2"
    using e2 by (simp add: field_simps)
  also have "\<dots> = exp (- 2)"
    by (simp add: exp_minus field_simps)
  finally have "ln x < ln (exp (- 2))"
    using assms by (simp only: ln_less_cancel_iff exp_gt_zero)
  then have "4 \<le> - 2 * ln x" by simp
  then have "sqrt 4 \<le> sqrt (- 2 * ln x)"
    by (rule real_sqrt_le_mono)
  then show ?thesis by simp
qed

lemma normalQuantile_real_pos:
  assumes "1 / 2 < p" and "p < 1"
  shows "0 < normalQuantile_real p"
proof (cases "p \<le> 1 - 0.02425")
  case True
  define q where "q = p - 1 / 2"
  have q: "0 < q" "q \<le> 0.47575"
    using assms True by (simp_all add: q_def)
  then have "q * q \<le> 0.47575 * 0.47575"
    by (intro mult_mono) simp_all
  then have r: "q * q \<le> 1 / 4" by simp
  have "0 < centralNum (q * q) * q / centralDen (q * q)"
    using centralNum_pos[OF r] centralDen_pos[OF r] q by simp
  then show ?thesis
    using assms True by (simp add: normalQuantile_real_def Let_def q_def)
next
  case False
  define q where "q = sqrt (- 2 * ln (1 - p))"
  have "2 \<le> q"
    unfolding q_def using assms False by (intro tail_argument) simp_all
  then have "tailNum q < 0" "0 < tailDen q"
    using tailNum_neg tailDen_pos by simp_all
  then have "0 < - tailNum q / tailDen q"
    by (simp add: field_simps)
  then show ?thesis
    using assms False by (simp add: normalQuantile_real_def Let_def q_def)
qed

lemma Math_exp_nonpositive:
  assumes "a \<le> 0"
  shows "Math_exp (Fin a) = Fin (expUnderflow a)"
  using assms by (simp add: expUnderflow_def)

lemma expUnderflow_nonneg: "0 \<le> expUnderflow a"
  by (simp add: expUnderflow_def)

lemma expUnderflow_mono: "a \<le> b \<Longrightarrow> expUnderflow a \<le> expUnderflow b"
  by (simp add: expUnderflow_def)

lemma normalCDF_Fin: "normalCDF (Fin x) = Fin (normalCDF_real x)"
proof -
  define a where "a = \<bar>x\<bar> / sqrt 2"
  define t where "t = 1 / (1 + 0.3275911 * a)"
  define e where "e = expUnderflow (- a * a)"
  have "0 \<le> a" by (simp add: a_def)
  then have "0 < 1 + 0.3275911 * a"
    by (simp add: add_pos_nonneg)
  then have nz: "1 + 0.3275911 * a \<noteq> 0" by simp
  have absX: "\<bar>Fin x\<bar> / Math_sqrt (Fin 2) = Fin a"
    by (simp add: a_def)
  have tt: "Fin 1 / (Fin 1 + Fin 0.3275911 * Fin a) = Fin t"
    using nz by (simp add: t_def)
  have "- a * a \<le> 0" by simp
  then have "Math_exp (Fin (- a * a)) = Fin e"
    unfolding e_def by (rule Math_exp_nonpositive)
  then have ee: "Math_exp (- Fin a * Fin a) = Fin e"
    by simp
  have "normalCDF (Fin x) =
          Fin 0.5 * (Fin 1 + (if Fin x < Fin 0 then Fin (- 1) else Fin 1) *
            (Fin 1 - (((((Fin 1.061405429 * Fin t + Fin (-1.453152027)) * Fin t) + Fin 1.421413741)
                        * Fin t + Fin (-0.284496736)) * Fin t + Fin 0.254829592) * Fin t
                     * Fin e))"
    unfolding normalCDF_def Let_def absX tt ee ..
  also have "\<dots> = Fin (0.5 * (1 + (if x < 0 then - 1 else 1) * (1 - cdfPoly t * e)))"
    by (simp add: cdfPoly_def minus_jsnum_def)
  also have "0.5 * (1 + (if x < 0 then - 1 else 1) * (1 - cdfPoly t * e))
             = normalCDF_real x"
    unfolding normalCDF_real_def Let_def a_def t_def e_def ..
  finally show ?thesis .
qed

lemma cdfPoly_deriv: "(cdfPoly has_real_derivative cdfPoly' t) (at t)"
  unfolding cdfPoly_def cdfPoly'_def
  by (auto intro!: derivative_eq_intros simp: field_simps power2_eq_square power3_eq_cube power4_eq_xxxx)

lemma cdfPoly'_bernstein:
  "cdfPoly' t = (31853699 / 125000000) * (1 - t) ^ 4 + 4 * (14072653 / 125000000) * t * (1 - t) ^ 3
     + 6 * (1362079453 / 2000000000) * t\<^sup>2 * (1 - t)\<^sup>2 + 4 * (202821229 / 400000000) * t ^ 3 * (1 - t)
     + (172224819 / 50000000) * t ^ 4"
  unfolding cdfPoly'_def by (simp add: field_simps power2_eq_square power3_eq_cube power4_eq_xxxx)

lemma cdfPoly'_pos:
  assumes "0 \<le> t" and "t \<le> 1"
  shows "0 < cdfPoly' t"
proof -
  have w: "0 \<le> 1 - t" using assms by simp
  have a: "0 \<le> (31853699 / 125000000) * (1 - t) ^ 4" using w by simp
  have b: "0 \<le> 4 * (14072653 / 125000000) * t * (1 - t) ^ 3" using w assms by simp
  have c: "0 \<le> 6 * (1362079453 / 2000000000) * t\<^sup>2 * (1 - t)\<^sup>2" by simp
  have d: "0 \<le> 4 * (202821229 / 400000000) * t ^ 3 * (1 - t)" using w assms by simp
  have e: "0 \<le> (172224819 / 50000000) * t ^ 4" using assms by simp
  have "0 < (31853699 / 125000000) * (1 - t) ^ 4 + (172224819 / 50000000) * t ^ 4"
  proof (cases "t = 0")
    case True then show ?thesis by simp
  next
    case False
    then have "0 < t ^ 4" using assms by simp
    then have "0 < (172224819 / 50000000) * t ^ 4" by simp
    then show ?thesis using a by linarith
  qed
  then show ?thesis
    unfolding cdfPoly'_bernstein using b c d by linarith
qed

lemma cdfPoly_strict_mono:
  assumes "0 \<le> s" and "s < t" and "t \<le> 1"
  shows "cdfPoly s < cdfPoly t"
proof (rule DERIV_pos_imp_increasing[OF assms(2)])
  fix x assume "s \<le> x" "x \<le> t"
  then have "0 < cdfPoly' x"
    using assms by (intro cdfPoly'_pos) simp_all
  then show "\<exists>y. (cdfPoly has_real_derivative y) (at x) \<and> 0 < y"
    using cdfPoly_deriv by blast
qed


lemma cdfPoly_zero: "cdfPoly 0 = 0"
  by (simp add: cdfPoly_def)

lemma cdfPoly_nonneg:
  assumes "0 \<le> t" and "t \<le> 1"
  shows "0 \<le> cdfPoly t"
proof (cases "t = 0")
  case True
  then show ?thesis by (simp add: cdfPoly_zero)
next
  case False
  then have "cdfPoly 0 < cdfPoly t"
    using assms by (intro cdfPoly_strict_mono) simp_all
  then show ?thesis by (simp add: cdfPoly_zero)
qed

lemma normalCDF_real_nonneg_arg:
  assumes "0 \<le> x"
  shows "normalCDF_real x =
           0.5 * (1 + (1 - cdfPoly (1 / (1 + 0.3275911 * (x / sqrt 2)))
                            * expUnderflow (- ((x / sqrt 2) * (x / sqrt 2)))))"
  using assms unfolding normalCDF_real_def Let_def by simp

text \<open>\<open>normalCDF\<close> does not decrease on the non-negative reals: the polynomial factor and
  the exponential factor of its complement both fall.\<close>

lemma normalCDF_real_mono:
  assumes "0 \<le> x" and "x \<le> y"
  shows "normalCDF_real x \<le> normalCDF_real y"
proof -
  define u where "u = x / sqrt 2"
  define v where "v = y / sqrt 2"
  define s where "s = 1 / (1 + 0.3275911 * v)"
  define t where "t = 1 / (1 + 0.3275911 * u)"
  have uv: "0 \<le> u" "u \<le> v"
    using assms by (simp_all add: u_def v_def divide_right_mono)
  have du: "0 < 1 + 0.3275911 * u" and dv: "0 < 1 + 0.3275911 * v"
    using uv by (simp_all add: add_pos_nonneg)
  have st: "0 < s" "s \<le> t" "t \<le> 1"
    using uv du dv by (simp_all add: s_def t_def field_simps)
  have ps: "0 \<le> cdfPoly s"
    using st by (intro cdfPoly_nonneg) simp_all
  have pt: "cdfPoly s \<le> cdfPoly t"
  proof (cases "s = t")
    case True
    then show ?thesis by simp
  next
    case False
    then have "cdfPoly s < cdfPoly t"
      using st by (intro cdfPoly_strict_mono) simp_all
    then show ?thesis by simp
  qed
  have "u * u \<le> v * v"
    using uv by (intro mult_mono) simp_all
  then have ex: "expUnderflow (- (v * v)) \<le> expUnderflow (- (u * u))"
    by (intro expUnderflow_mono) simp
  have "cdfPoly s * expUnderflow (- (v * v)) \<le> cdfPoly t * expUnderflow (- (u * u))"
    using ps pt ex by (intro mult_mono expUnderflow_nonneg) simp_all
  moreover have "normalCDF_real x = 0.5 * (1 + (1 - cdfPoly t * expUnderflow (- (u * u))))"
    unfolding u_def t_def by (rule normalCDF_real_nonneg_arg[OF assms(1)])
  moreover have "0 \<le> y" using assms by simp
  then have "normalCDF_real y = 0.5 * (1 + (1 - cdfPoly s * expUnderflow (- (v * v))))"
    unfolding v_def s_def by (rule normalCDF_real_nonneg_arg)
  ultimately show ?thesis
    by simp
qed

lemma normalCDF_real_le_one:
  assumes "0 \<le> x"
  shows "normalCDF_real x \<le> 1"
proof -
  define u where "u = x / sqrt 2"
  define t where "t = 1 / (1 + 0.3275911 * u)"
  have u: "0 \<le> u" using assms by (simp add: u_def)
  then have d: "0 < 1 + 0.3275911 * u" by (simp add: add_pos_nonneg)
  have t: "0 \<le> t" "t \<le> 1"
    using u d by (simp_all add: t_def field_simps)
  have "0 \<le> cdfPoly t * expUnderflow (- (u * u))"
    using cdfPoly_nonneg[OF t] expUnderflow_nonneg by simp
  moreover have "normalCDF_real x = 0.5 * (1 + (1 - cdfPoly t * expUnderflow (- (u * u))))"
    unfolding u_def t_def by (rule normalCDF_real_nonneg_arg[OF assms])
  ultimately show ?thesis by simp
qed

text \<open>Where the exponential underflows, \<open>normalCDF\<close> is exactly one.\<close>

lemma normalCDF_real_saturated:
  assumes "0 \<le> x" and "1490.2664382038824 < x * x"
  shows "normalCDF_real x = 1"
proof -
  have "(x / sqrt 2) * (x / sqrt 2) = x * x / 2"
    by (simp add: field_simps)
  then have "- ((x / sqrt 2) * (x / sqrt 2)) < - 745.1332191019412"
    using assms(2) by simp
  then have "expUnderflow (- ((x / sqrt 2) * (x / sqrt 2))) = 0"
    by (simp add: expUnderflow_def)
  then show ?thesis
    unfolding normalCDF_real_nonneg_arg[OF assms(1)] by simp
qed


section \<open>Boundaries and spending on finite fractions\<close>

lemma upper_quantile_Fin:
  assumes "0 < a" and "a < 2"
  shows "normalQuantile (Fin 1 - Fin a / Fin 2) = Fin (normalQuantile_real (1 - a / 2))"
proof -
  have "Fin 1 - Fin a / Fin 2 = Fin (1 - a / 2)"
    by (simp add: minus_jsnum_def)
  then show ?thesis
    using assms by (simp add: normalQuantile_Fin)
qed

lemma complement_quantile_Fin:
  assumes "0 < b" and "b < 1"
  shows "normalQuantile (Fin 1 - Fin b) = Fin (normalQuantile_real (1 - b))"
proof -
  have "Fin 1 - Fin b = Fin (1 - b)"
    by (simp add: minus_jsnum_def)
  then show ?thesis
    using assms by (simp add: normalQuantile_Fin)
qed

lemma computeMonitoringBoundary_Fin:
  assumes "0 < t" and "t < 3 / 2" and "0 < a" and "a < 2"
  shows "computeMonitoringBoundary (Fin t) (Fin a) = Fin (normalQuantile_real (1 - a / 2) / sqrt t)"
  unfolding computeMonitoringBoundary_def Let_def upper_quantile_Fin[OF assms(3,4)]
  using assms by simp


lemma computeFutilityBoundary_Fin:
  assumes "0 < t" and "t < 1" and "0 < b" and "b < 1" and "ft \<noteq> Some FB_none"
  shows "computeFutilityBoundary (Fin t) (Fin b) ft =
           Fin (min (normalQuantile_real (1 - b / 2) / sqrt t * 0.5) (normalQuantile_real (1 - b)))"
proof -
  have tag: "(case ft of None \<Rightarrow> FB_obrien_fleming | Some b \<Rightarrow> b) \<noteq> FB_none"
    using assms(5) by (cases ft) simp_all
  have b2: "0 < b" "b < 2" using assms by simp_all
  show ?thesis
    unfolding computeFutilityBoundary_def Let_def upper_quantile_Fin[OF b2]
      complement_quantile_Fin[OF assms(3,4)]
    using assms(1,2) tag by (simp add: min_def)
qed

lemma lanDeMetsAlphaSpending_Fin:
  assumes "0 < t" and "t < 1" and "0 < a" and "a < 2"
  shows "lanDeMetsAlphaSpending (Fin t) (Fin a) =
           Fin (2 * (1 - normalCDF_real (normalQuantile_real (1 - a / 2) / sqrt t)))"
  unfolding lanDeMetsAlphaSpending_def Let_def upper_quantile_Fin[OF assms(3,4)]
  using assms(1,2) by (simp add: normalCDF_Fin minus_jsnum_def)

lemma quantile_080: "0.84 < normalQuantile_real 0.8" "normalQuantile_real 0.8 < 0.85"
  by (simp_all add: normalQuantile_real_def centralNum_def centralDen_def Let_def)

lemma quantile_095: "1.64 < normalQuantile_real 0.95" "normalQuantile_real 0.95 < 1.65"
  by (simp_all add: normalQuantile_real_def centralNum_def centralDen_def Let_def)

lemma quantile_0975: "1.9599 < normalQuantile_real 0.975" "normalQuantile_real 0.975 < 1.96"
  by (simp_all add: normalQuantile_real_def centralNum_def centralDen_def Let_def)

lemma sqrt_081: "sqrt (81 / 100) = 9 / 10"
  by (rule real_sqrt_unique) (simp_all add: power2_eq_square)


lemma quantile_090: "1.28 < normalQuantile_real 0.9" "normalQuantile_real 0.9 < 1.29"
  by (simp_all add: normalQuantile_real_def centralNum_def centralDen_def Let_def)

section \<open>Monotonicity and range of the alpha spending\<close>

lemma alphaSpending_nonpositive_fraction:
  "f \<le> Fin 0 \<Longrightarrow> lanDeMetsAlphaSpending f a = Fin 0"
  by (simp add: lanDeMetsAlphaSpending_def)

lemma alphaSpending_full_fraction:
  "Fin 1 \<le> f \<Longrightarrow> lanDeMetsAlphaSpending f a = a"
  by (cases f) (simp_all add: lanDeMetsAlphaSpending_def)

lemma alphaSpending_formula:
  assumes "0 < t" and "t < 1"
  shows "lanDeMetsAlphaSpending (Fin t) a =
           Fin 2 * (Fin 1 - normalCDF (normalQuantile (Fin 1 - a / Fin 2) / Math_sqrt (Fin t)))"
  using assms by (simp add: lanDeMetsAlphaSpending_def Let_def)

lemma alphaSpending_mono:
  assumes "0 < s" and "s \<le> t" and "t < 1" and "0 < a" and "a < 1 / 2"
  shows "lanDeMetsAlphaSpending (Fin s) (Fin a) \<le> lanDeMetsAlphaSpending (Fin t) (Fin a)"
proof -
  define z where "z = normalQuantile_real (1 - a / 2)"
  have z: "0 < z"
    using assms by (simp add: z_def normalQuantile_real_pos)
  have "sqrt s \<le> sqrt t" using assms by simp
  moreover have "0 < sqrt s" using assms by simp
  ultimately have "z / sqrt t \<le> z / sqrt s"
    using z by (simp add: divide_left_mono)
  moreover have "0 \<le> z / sqrt t" using z assms by simp
  ultimately have "normalCDF_real (z / sqrt t) \<le> normalCDF_real (z / sqrt s)"
    by (intro normalCDF_real_mono)
  then show ?thesis
    using assms by (simp add: lanDeMetsAlphaSpending_Fin z_def)
qed

text \<open>On the small fractions where the exponential underflows the spending is exactly
  zero.\<close>

lemma alphaSpending_flat:
  assumes "0 < t" and "t < 1" and "0 < a" and "a < 1 / 2"
    and "1490.2664382038824 * t < (normalQuantile_real (1 - a / 2))\<^sup>2"
  shows "lanDeMetsAlphaSpending (Fin t) (Fin a) = Fin 0"
proof -
  define z where "z = normalQuantile_real (1 - a / 2)"
  have z: "0 < z"
    using assms by (simp add: z_def normalQuantile_real_pos)
  have "(z / sqrt t) * (z / sqrt t) = z\<^sup>2 / t"
    using assms(1) by (simp add: power2_eq_square)
  moreover have "1490.2664382038824 < z\<^sup>2 / t"
    using assms(1,5) by (simp add: z_def field_simps)
  ultimately have "1490.2664382038824 < (z / sqrt t) * (z / sqrt t)"
    by simp
  moreover have "0 \<le> z / sqrt t" using z assms by simp
  ultimately have "normalCDF_real (z / sqrt t) = 1"
    by (intro normalCDF_real_saturated)
  then show ?thesis
    using assms by (simp add: lanDeMetsAlphaSpending_Fin z_def)
qed

lemma alphaSpending_nonneg:
  assumes "0 < t" and "t < 1" and "0 < a" and "a < 1 / 2"
  shows "Fin 0 \<le> lanDeMetsAlphaSpending (Fin t) (Fin a)"
proof -
  define z where "z = normalQuantile_real (1 - a / 2)"
  have z: "0 < z"
    using assms by (simp add: z_def normalQuantile_real_pos)
  then have "0 \<le> z / sqrt t" using assms by simp
  then have "normalCDF_real (z / sqrt t) \<le> 1"
    by (rule normalCDF_real_le_one)
  then show ?thesis
    using assms by (simp add: lanDeMetsAlphaSpending_Fin z_def)
qed






section \<open>An alpha spending above alpha\<close>













section \<open>Running totals and records of the trace\<close>

lemma calculateRIS_cases:
  "calculateRIS params =
    (let p0 = controlRate params;
         p1 = p0 * (1 - effectSize params / 100);
         zA = normalQuantile (Fin (1 - alpha params / 2));
         zB = normalQuantile (Fin (1 - beta params))
     in if p0 \<le> 0 \<or> 1 \<le> p0 \<or> p1 \<le> 0 \<or> 1 \<le> p1 then Fin 100000
        else if \<bar>ln (anticipatedOR p0 p1)\<bar> < 0.001 then Fin 100000
        else Math_ceil (Fin 2 * ((zA + zB) * (zA + zB) * Fin (varComponent p0 p1)
                                  / Fin ((ln (anticipatedOR p0 p1))\<^sup>2))
                        * heterogeneityCorrection params))"
proof -
  define p0 where "p0 = controlRate params"
  define p1 where "p1 = p0 * (1 - effectSize params / 100)"
  define x where "x = anticipatedOR p0 p1"
  define zA where "zA = normalQuantile (Fin 1 - Fin (alpha params) / Fin 2)"
  define zB where "zB = normalQuantile (Fin 1 - Fin (beta params))"
  have zA: "normalQuantile (Fin (1 - alpha params / 2)) = zA"
    by (simp add: zA_def minus_jsnum_def)
  have zB: "normalQuantile (Fin (1 - beta params)) = zB"
    by (simp add: zB_def minus_jsnum_def)
  have e0: "Fin (controlRate params) * (Fin 1 - Fin (effectSize params) / Fin 100) = Fin p1"
    by (simp add: p1_def p0_def minus_jsnum_def)
  have code: "calculateRIS params =
     (if Fin p0 \<le> Fin 0 \<or> Fin 1 \<le> Fin p0 \<or> Fin p1 \<le> Fin 0 \<or> Fin 1 \<le> Fin p1 then Fin 100000
      else if \<bar>Math_log (Fin p1 / (Fin 1 - Fin p1) / (Fin p0 / (Fin 1 - Fin p0)))\<bar> < Fin 0.001
        then Fin 100000
      else Math_ceil (Fin 2 * (Math_pow2 (zA + zB) *
              (Fin 1 / (Fin p1 * (Fin 1 - Fin p1)) + Fin 1 / (Fin p0 * (Fin 1 - Fin p0))) /
              Math_pow2 (Math_log (Fin p1 / (Fin 1 - Fin p1) / (Fin p0 / (Fin 1 - Fin p0)))))
            * heterogeneityCorrection params))"
    unfolding calculateRIS_def Let_def e0 zA_def zB_def p0_def ..
  show ?thesis
  proof (cases "p0 \<le> 0 \<or> 1 \<le> p0 \<or> p1 \<le> 0 \<or> 1 \<le> p1")
    case True
    then show ?thesis
      unfolding code Let_def p0_def[symmetric] p1_def[symmetric] by auto
  next
    case False
    then have r: "0 < p0" "p0 < 1" "0 < p1" "p1 < 1" by auto
    then have pos: "0 < x"
      by (simp add: x_def anticipatedOR_def)
    have e1: "Fin p1 / (Fin 1 - Fin p1) / (Fin p0 / (Fin 1 - Fin p0)) = Fin x"
      using r by (simp add: minus_jsnum_def x_def anticipatedOR_def)
    have lg: "Math_log (Fin x) = Fin (ln x)"
      using pos by simp
    have var: "Fin 1 / (Fin p1 * (Fin 1 - Fin p1)) + Fin 1 / (Fin p0 * (Fin 1 - Fin p0))
               = Fin (varComponent p0 p1)"
      using r by (simp add: minus_jsnum_def varComponent_def)
    show ?thesis
      using False
      unfolding code e1 lg var Let_def p0_def[symmetric] p1_def[symmetric] zA zB x_def[symmetric]
      by (simp add: Math_pow2_def power2_eq_square)
  qed
qed








text \<open>Counts below \<open>2^53\<close> are the exact sums.\<close>

lemma addDouble_exact:
  assumes "0 \<le> a" and "0 \<le> b" and "0 \<le> c" and "c + (a + b) < 2 ^ 53"
  shows "addDouble c (addDouble a b) = c + (a + b)"
proof -
  have "addDouble a b = a + b"
    using assms by (intro addDouble_small) simp_all
  then show ?thesis
    using assms by (simp add: addDouble_small)
qed

lemma tsaPoint_fields:
  "study (tsaPoint studies params risv k n) =
     name (studies ! k) @ '' ('' @ showInteger (year (studies ! k)) @ '')''"
  "patients (tsaPoint studies params risv k n) = n"
  "informationFraction (tsaPoint studies params risv k n) = n / risv"
  "monitoringBoundary (tsaPoint studies params risv k n) =
     computeMonitoringBoundary (n / risv) (Fin (alpha params))"
  "futilityBoundary (tsaPoint studies params risv k n) =
     computeFutilityBoundary (n / risv) (Fin (beta params)) None"
  "alphaSpent (tsaPoint studies params risv k n) =
     lanDeMetsAlphaSpending (n / risv) (Fin (alpha params))"
  by (simp_all add: tsaPoint_def Let_def)

section \<open>The required information size of the test parameters\<close>

lemma example_logOR:
  "0.43 \<le> \<bar>ln (anticipatedOR (3 / 20) (39 / 400))\<bar>" "\<bar>ln (anticipatedOR (3 / 20) (39 / 400))\<bar> \<le> 0.52"
proof -
  have orv: "anticipatedOR (3 / 20) (39 / 400) = 221 / 361"
    by (simp add: anticipatedOR_def)
  have inv: "ln (221 / 361 :: real) = - ln (361 / 221)"
    by (simp add: ln_div)
  have "exp (0.43::real) \<le> 1 + 0.43 + 0.43\<^sup>2"
    by (rule exp_bound) simp_all
  also have "\<dots> \<le> 361 / 221"
    by (simp add: power2_eq_square)
  finally have "exp (0.43::real) \<le> 361 / 221" .
  then have lo: "(0.43::real) \<le> ln (361 / 221)"
    by (subst ln_ge_iff) simp_all
  have "(361 / 221 :: real) \<le> 1 + 0.52 + 0.52\<^sup>2 / 2"
    by (simp add: power2_eq_square)
  also have "\<dots> \<le> exp 0.52"
    by (rule exp_lower_Taylor_quadratic) simp
  finally have "ln (361 / 221 :: real) \<le> ln (exp 0.52)"
    by (subst ln_le_cancel_iff) simp_all
  then have hi: "ln (361 / 221 :: real) \<le> 0.52"
    by simp
  show "0.43 \<le> \<bar>ln (anticipatedOR (3 / 20) (39 / 400))\<bar>" "\<bar>ln (anticipatedOR (3 / 20) (39 / 400))\<bar> \<le> 0.52"
    using lo hi unfolding orv inv by simp_all
qed

lemma per_arm_bounds:
  fixes s v l :: real
  assumes "lo \<le> s" and "s \<le> hi" and "0 \<le> lo" and "0 < v" and "a \<le> \<bar>l\<bar>" and "\<bar>l\<bar> \<le> b"
    and "0 < a"
  shows "lo\<^sup>2 * v / b\<^sup>2 \<le> s * s * v / l\<^sup>2" and "s * s * v / l\<^sup>2 \<le> hi\<^sup>2 * v / a\<^sup>2"
proof -
  have s2: "lo\<^sup>2 \<le> s * s" "s * s \<le> hi\<^sup>2"
    using assms(1-3) by (simp_all add: power2_eq_square mult_mono)
  have "\<bar>a\<bar> \<le> \<bar>l\<bar>" "\<bar>l\<bar> \<le> \<bar>b\<bar>"
    using assms(5-7) by simp_all
  then have l2: "a\<^sup>2 \<le> l\<^sup>2" "l\<^sup>2 \<le> b\<^sup>2"
    by (simp_all only: abs_le_square_iff)
  have a2: "0 < a\<^sup>2" using assms(7) by simp
  then have lpos: "0 < l\<^sup>2" using l2 by linarith
  show "lo\<^sup>2 * v / b\<^sup>2 \<le> s * s * v / l\<^sup>2"
    using s2 l2 lpos assms(4) by (intro frac_le mult_right_mono) simp_all
  show "s * s * v / l\<^sup>2 \<le> hi\<^sup>2 * v / a\<^sup>2"
    using s2 l2 a2 assms(3,4) assms(1) by (intro frac_le mult_right_mono mult_nonneg_nonneg) simp_all
qed

lemma exampleParams_ris:
  "\<exists>rv. calculateRIS exampleParams = Fin rv \<and> 1336 \<le> rv \<and> rv \<le> 1969"
proof -
  define zA where "zA = normalQuantile_real 0.975"
  define zB where "zB = normalQuantile_real 0.8"
  define l where "l = ln (anticipatedOR (3 / 20) (39 / 400))"
  define v where "v = varComponent (3 / 20) (39 / 400)"
  define K where "K = 2 * (((zA + zB) * (zA + zB)) * v / l\<^sup>2) * 1.2"
  have qA: "normalQuantile (Fin 0.975) = Fin zA"
    unfolding zA_def by (rule normalQuantile_Fin) simp_all
  have qB: "normalQuantile (Fin 0.8) = Fin zB"
    unfolding zB_def by (rule normalQuantile_Fin) simp_all
  have l: "0.43 \<le> \<bar>l\<bar>" "\<bar>l\<bar> \<le> 0.52"
    using example_logOR by (simp_all add: l_def)
  then have lnz: "l\<^sup>2 \<noteq> 0" "\<not> \<bar>l\<bar> < 0.001"
    by auto
  have ris: "calculateRIS exampleParams = Fin (of_int \<lceil>K\<rceil>)"
    unfolding calculateRIS_cases Let_def
    using lnz qA qB
    by (simp add: exampleParams_def l_def[symmetric] v_def[symmetric] K_def)
  have s: "2.7999 \<le> zA + zB" "zA + zB \<le> 2.81"
    using quantile_0975 quantile_080 by (simp_all add: zA_def zB_def)
  have vv: "v = 1 / (0.0975 * 0.9025) + 1 / (0.15 * 0.85)"
    by (simp add: v_def varComponent_def)
  have vpos: "0 < v" "19.2 \<le> v" "v \<le> 19.21"
    unfolding vv by simp_all
  have b1: "2.7999\<^sup>2 * v / 0.52\<^sup>2 \<le> (zA + zB) * (zA + zB) * v / l\<^sup>2"
    and b2: "(zA + zB) * (zA + zB) * v / l\<^sup>2 \<le> 2.81\<^sup>2 * v / 0.43\<^sup>2"
  proof -
    have z: "(0::real) \<le> 2.7999" "(0::real) < 0.43" by simp_all
    show "2.7999\<^sup>2 * v / 0.52\<^sup>2 \<le> (zA + zB) * (zA + zB) * v / l\<^sup>2"
      by (rule per_arm_bounds(1)[OF s(1) s(2) z(1) vpos(1) l(1) l(2) z(2)])
    show "(zA + zB) * (zA + zB) * v / l\<^sup>2 \<le> 2.81\<^sup>2 * v / 0.43\<^sup>2"
      by (rule per_arm_bounds(2)[OF s(1) s(2) z(1) vpos(1) l(1) l(2) z(2)])
  qed
  define X where "X = (zA + zB) * (zA + zB) * v / l\<^sup>2"
  define Xlo where "Xlo = 2.7999\<^sup>2 * v / 0.52\<^sup>2"
  define Xhi where "Xhi = 2.81\<^sup>2 * v / 0.43\<^sup>2"
  have KX: "K = 2 * X * 1.2"
    by (simp add: K_def X_def)
  have X: "Xlo \<le> X" "X \<le> Xhi"
    using b1 b2 by (simp_all only: X_def Xlo_def Xhi_def)
  have "2.7999\<^sup>2 * 19.2 / 0.52\<^sup>2 \<le> Xlo"
    unfolding Xlo_def using vpos(2) by (intro divide_right_mono mult_left_mono) simp_all
  moreover have "(556.625::real) \<le> 2.7999\<^sup>2 * 19.2 / 0.52\<^sup>2"
    by (simp add: power2_eq_square)
  ultimately have "556.625 \<le> X"
    using X(1) by linarith
  then have Klo: "1335.9 \<le> K"
    unfolding KX by simp
  have "Xhi \<le> 2.81\<^sup>2 * 19.21 / 0.43\<^sup>2"
    unfolding Xhi_def using vpos(3) by (intro divide_right_mono mult_left_mono) simp_all
  moreover have "2.81\<^sup>2 * 19.21 / 0.43\<^sup>2 \<le> (820.4::real)"
    by (simp add: power2_eq_square)
  ultimately have "X \<le> 820.4"
    using X(2) by linarith
  then have Khi: "K \<le> 1969"
    unfolding KX by simp
  have "1335 < K" using Klo by simp
  then have "1335 < \<lceil>K\<rceil>"
    by (simp add: less_ceiling_iff)
  then have "1336 \<le> \<lceil>K\<rceil>"
    by linarith
  moreover have "\<lceil>K\<rceil> \<le> 1969"
    using Khi by (simp add: ceiling_le_iff)
  ultimately show ?thesis
    using ris by auto
qed

section \<open>The result of the driver\<close>

text \<open>
  Claim C2. \<open>calculateTSA\<close> returns the absent result exactly when the study list is
  empty; for every non-empty list it returns a result, and the trace of that result is
  not empty (it has one record per study).
\<close>

theorem calculateTSA_null_iff_empty:
  "(calculateTSA studies params = None \<longleftrightarrow> studies = []) \<and>
   (studies \<noteq> [] \<longrightarrow>
      (\<exists>r. calculateTSA studies params = Some r \<and> cumulativeData r \<noteq> [] \<and>
           length (cumulativeData r) = length studies))"
proof -
  have "calculateTSA studies params = None \<longleftrightarrow> studies = []"
    by (simp add: calculateTSA_def Let_def)
  moreover have "\<exists>r. calculateTSA studies params = Some r \<and> cumulativeData r \<noteq> [] \<and>
           length (cumulativeData r) = length studies" if "studies \<noteq> []"
    using calculateTSA_trace[OF that, of params] that by auto
  ultimately show ?thesis by blast
qed

theorem calculateTSA_null_iff_empty_witness:
  "exampleStudies \<noteq> [] \<and>
   (\<exists>r. calculateTSA exampleStudies exampleParams = Some r \<and> cumulativeData r \<noteq> [] \<and>
        length (cumulativeData r) = length exampleStudies)"
  using calculateTSA_null_iff_empty[of exampleStudies exampleParams]
  by (simp add: exampleStudies_def)



section \<open>Heterogeneity of fewer than two studies\<close>

text \<open>
  Claim C9. For a study list with fewer than two studies \<open>calculateHeterogeneity\<close> returns
  Q = 0, I-squared = 0, tau-squared = 0 and p-value = 1, whatever the counts of the study.
\<close>

theorem calculateHeterogeneity_fewer_than_two:
  "length studies < 2 \<Longrightarrow>
   calculateHeterogeneity studies = \<lparr> qStat = Fin 0, i2 = Fin 0, tau2 = Fin 0, pValue = Fin 1 \<rparr>"
  by (simp add: calculateHeterogeneity_def)

theorem calculateHeterogeneity_fewer_than_two_witness:
  "length [hd exampleStudies] < 2 \<and>
   calculateHeterogeneity [hd exampleStudies] =
     \<lparr> qStat = Fin 0, i2 = Fin 0, tau2 = Fin 0, pValue = Fin 1 \<rparr>"
  using calculateHeterogeneity_fewer_than_two[of "[hd exampleStudies]"] by simp

section \<open>The study-level estimate\<close>

lemma calculateStudyOR_cells:
  "calculateStudyOR s =
    (case correctedCells s of (a, b, c, d) \<Rightarrow>
       let se1 = Math_sqrt (Fin 1 / Fin a + Fin 1 / Fin b + Fin 1 / Fin c + Fin 1 / Fin d)
       in \<lparr> or = (Fin a * Fin d) / (Fin b * Fin c), se = se1, weight = Fin 1 / (se1 * se1) \<rparr>)"
  by (simp add: calculateStudyOR_def correctedCells_def rawCells_def Let_def num_of_def
        minus_jsnum_def)

lemma correctedCells_pos:
  assumes "validStudy s" and "correctedCells s = (a, b, c, d)"
  shows "0 < a \<and> 0 < b \<and> 0 < c \<and> 0 < d"
proof -
  obtain a0 b0 c0 d0 where raw: "rawCells s = (a0, b0, c0, d0)"
    by (metis prod_cases4)
  have nn: "0 \<le> a0" "0 \<le> b0" "0 \<le> c0" "0 \<le> d0"
    using assms(1) raw by (auto simp: validStudy_def rawCells_def)
  show ?thesis
    using assms(2) nn unfolding correctedCells_def raw
    by (auto split: if_splits)
qed

text \<open>
  Claim C5. \<open>calculateStudyOR\<close> computes from the corrected cells, and the corrected cells
  are the raw cells plus one half each exactly when some raw cell is zero (\<open>correctedCells\<close>):
  OR = (a d)/(b c), SE = sqrt (1/a + 1/b + 1/c + 1/d), weight = 1/SE^2. For a study that
  satisfies the invariant of the data model the four corrected cells are positive and the
  three results are these finite numbers.
\<close>

theorem calculateStudyOR_conditional_correction:
  assumes "correctedCells s = (a, b, c, d)"
  shows "calculateStudyOR s =
           (let se1 = Math_sqrt (Fin 1 / Fin a + Fin 1 / Fin b + Fin 1 / Fin c + Fin 1 / Fin d)
            in \<lparr> or = (Fin a * Fin d) / (Fin b * Fin c), se = se1,
                 weight = Fin 1 / (se1 * se1) \<rparr>) \<and>
         (validStudy s \<longrightarrow>
            calculateStudyOR s =
              \<lparr> or = Fin (a * d / (b * c)),
                se = Fin (sqrt (1 / a + 1 / b + 1 / c + 1 / d)),
                weight = Fin (1 / (sqrt (1 / a + 1 / b + 1 / c + 1 / d))\<^sup>2) \<rparr>)"
proof
  show "calculateStudyOR s =
           (let se1 = Math_sqrt (Fin 1 / Fin a + Fin 1 / Fin b + Fin 1 / Fin c + Fin 1 / Fin d)
            in \<lparr> or = (Fin a * Fin d) / (Fin b * Fin c), se = se1,
                 weight = Fin 1 / (se1 * se1) \<rparr>)"
    by (simp add: calculateStudyOR_cells assms)
next
  show "validStudy s \<longrightarrow>
            calculateStudyOR s =
              \<lparr> or = Fin (a * d / (b * c)),
                se = Fin (sqrt (1 / a + 1 / b + 1 / c + 1 / d)),
                weight = Fin (1 / (sqrt (1 / a + 1 / b + 1 / c + 1 / d))\<^sup>2) \<rparr>"
  proof
    assume v: "validStudy s"
    have pos: "0 < a" "0 < b" "0 < c" "0 < d"
      using correctedCells_pos[OF v assms] by simp_all
    then have sum: "0 < 1 / a + 1 / b + 1 / c + 1 / d"
      by (simp add: add_pos_pos)
    show "calculateStudyOR s =
              \<lparr> or = Fin (a * d / (b * c)),
                se = Fin (sqrt (1 / a + 1 / b + 1 / c + 1 / d)),
                weight = Fin (1 / (sqrt (1 / a + 1 / b + 1 / c + 1 / d))\<^sup>2) \<rparr>"
      unfolding calculateStudyOR_cells assms using pos sum
      by (simp add: Let_def power2_eq_square)
  qed
qed

theorem calculateStudyOR_conditional_correction_witness:
  "correctedCells zeroCellStudy = (1 / 2, 101 / 2, 21 / 2, 81 / 2) \<and>
   validStudy zeroCellStudy \<and>
   calculateStudyOR zeroCellStudy =
     \<lparr> or = Fin ((1 / 2) * (81 / 2) / ((101 / 2) * (21 / 2))),
       se = Fin (sqrt (1 / (1 / 2) + 1 / (101 / 2) + 1 / (21 / 2) + 1 / (81 / 2))),
       weight = Fin (1 / (sqrt (1 / (1 / 2) + 1 / (101 / 2) + 1 / (21 / 2) + 1 / (81 / 2)))\<^sup>2) \<rparr>"
proof -
  have cells: "correctedCells zeroCellStudy = (1 / 2, 101 / 2, 21 / 2, 81 / 2)"
    by (simp add: correctedCells_def rawCells_def zeroCellStudy_def)
  have valid: "validStudy zeroCellStudy"
    by (simp add: validStudy_def zeroCellStudy_def)
  show ?thesis
    using calculateStudyOR_conditional_correction[OF cells] cells valid by blast
qed

section \<open>Mantel-Haenszel pooling\<close>

lemma mhStep_counted:
  "mhStep acc s =
     (if 0 < totalTrt s + totalCtrl s then
        \<lparr> sumR = sumR acc + termR s, sumS = sumS acc + termS s,
          sumPR = sumPR acc + termP s * termR s,
          sumPS_QR = sumPS_QR acc + (termP s * termS s + termQ s * termR s),
          sumQS = sumQS acc + termQ s * termS s \<rparr>
      else acc)"
  by (simp add: mhStep_def Let_def termR_def termS_def termP_def termQ_def
        cellA_def cellB_def cellC_def cellD_def cellN_def num_of_def minus_jsnum_def)

text \<open>The \<open>forEach\<close> of \<open>calculatePooledOR\<close> adds to each accumulator the sum of its term over
  the studies that pass the guard.\<close>

lemma foldl_mhStep:
  "foldl mhStep acc xs =
     \<lparr> sumR = sumR acc + (\<Sum>s\<leftarrow>countedStudies xs. termR s),
       sumS = sumS acc + (\<Sum>s\<leftarrow>countedStudies xs. termS s),
       sumPR = sumPR acc + (\<Sum>s\<leftarrow>countedStudies xs. termP s * termR s),
       sumPS_QR = sumPS_QR acc + (\<Sum>s\<leftarrow>countedStudies xs. termP s * termS s + termQ s * termR s),
       sumQS = sumQS acc + (\<Sum>s\<leftarrow>countedStudies xs. termQ s * termS s) \<rparr>"
proof (induction xs arbitrary: acc)
  case Nil
  then show ?case by (simp add: countedStudies_def)
next
  case (Cons x xs)
  show ?case
  proof (cases "0 < totalTrt x + totalCtrl x")
    case True
    then have step: "mhStep acc x =
        \<lparr> sumR = sumR acc + termR x, sumS = sumS acc + termS x,
          sumPR = sumPR acc + termP x * termR x,
          sumPS_QR = sumPS_QR acc + (termP x * termS x + termQ x * termR x),
          sumQS = sumQS acc + termQ x * termS x \<rparr>"
      by (simp add: mhStep_counted)
    show ?thesis
      using True by (simp add: Cons.IH step countedStudies_def add.assoc)
  next
    case False
    then have step: "mhStep acc x = acc"
      by (simp add: mhStep_counted)
    show ?thesis
      using False by (simp add: Cons.IH step countedStudies_def)
  qed
qed

lemma zero_plus_jsnum: "Fin 0 + x = x"
  by (cases x) simp_all

lemma calculatePooledOR_counted: "calculatePooledOR studies = pooledOR_counted studies"
proof -
  have filt: "filter (\<lambda>study. \<not> (js_eq (num_of (eventsTrt study)) (Fin 0) \<and>
                                 js_eq (num_of (eventsCtrl study)) (Fin 0))) studies
              = retainedStudies studies"
    by (simp add: retainedStudies_def num_of_def)
  show ?thesis
    unfolding calculatePooledOR_def filt pooledOR_counted_def mantelHaenszel_def Let_def
    by (simp add: foldl_mhStep zero_plus_jsnum)
qed

text \<open>
  Claim C3, as stated: every retained study enters the Mantel-Haenszel sums. It fails on
  \<open>skippedExample\<close>: the second record is retained (it has events) but its combined total
  is zero, the source skips it, and the pooled standard error is the finite one of the first
  study, where the sums over both retained records give an infinite one.
\<close>

theorem calculatePooledOR_claimed_counterexample:
  "se (calculatePooledOR skippedExample) \<noteq> se (pooledOR_claimed skippedExample)"
proof -
  have "is_finite (se (calculatePooledOR skippedExample))"
    unfolding calculatePooledOR_counted
    by (simp add: pooledOR_counted_def retainedStudies_def countedStudies_def mantelHaenszel_def
        skippedExample_def termR_def termS_def termP_def termQ_def
        cellA_def cellB_def cellC_def cellD_def cellN_def num_of_def minus_jsnum_def zero_jsnum_def)
  moreover have "se (pooledOR_claimed skippedExample) = PosInf"
    by (simp add: pooledOR_claimed_def retainedStudies_def mantelHaenszel_def
        skippedExample_def termR_def termS_def termP_def termQ_def
        cellA_def cellB_def cellC_def cellD_def cellN_def num_of_def minus_jsnum_def zero_jsnum_def)
  ultimately show ?thesis by auto
qed

text \<open>
  Claim C3, amended. For every study list, \<open>calculatePooledOR\<close> drops exactly the double-zero
  studies; when none is left it returns OR = 1 and SE = infinity; otherwise it sums, from the
  raw counts, over the retained studies whose combined total is positive, and returns
  OR = R/S when S > 0 and 1 otherwise, and the square root of the Robins-Breslow-Greenland
  variance when R > 0 and S > 0 and of infinity otherwise. When every study has a positive
  combined total this is the estimate over all retained studies.
\<close>

theorem calculatePooledOR_mantel_haenszel:
  "calculatePooledOR studies = pooledOR_counted studies \<and>
   ((\<forall>s \<in> set studies. 0 < totalTrt s + totalCtrl s) \<longrightarrow>
      calculatePooledOR studies = pooledOR_claimed studies)"
proof -
  have "countedStudies (retainedStudies studies) = retainedStudies studies"
    if "\<forall>s \<in> set studies. 0 < totalTrt s + totalCtrl s"
    using that by (auto simp: countedStudies_def retainedStudies_def intro: filter_cong)
  then show ?thesis
    by (simp add: calculatePooledOR_counted pooledOR_counted_def pooledOR_claimed_def)
qed

theorem calculatePooledOR_mantel_haenszel_witness:
  "list_all (\<lambda>s. 0 < totalTrt s + totalCtrl s) exampleStudies \<and>
   calculatePooledOR exampleStudies = pooledOR_counted exampleStudies \<and>
   calculatePooledOR exampleStudies = pooledOR_claimed exampleStudies"
proof -
  have all: "list_all (\<lambda>s. 0 < totalTrt s + totalCtrl s) exampleStudies"
    by (simp add: exampleStudies_def)
  then have "\<forall>s \<in> set exampleStudies. 0 < totalTrt s + totalCtrl s"
    by (simp add: list_all_iff)
  then show ?thesis
    using all calculatePooledOR_mantel_haenszel[of exampleStudies] by blast
qed

section \<open>Required information size\<close>

text \<open>
  Claim C8. \<open>calculateRIS\<close> returns 100000 when the control rate or the derived treatment
  rate is outside the open unit interval, or when the absolute log of the anticipated odds
  ratio is below 0.001; otherwise it returns the ceiling of twice the per-arm size times
  the heterogeneity correction, the per-arm size being the squared sum of the two quantiles
  times the variance component over the squared log odds ratio. It is a value for every
  parameter record; no branch fails. The heterogeneity correction enters as the number it
  is: an undefined correction, read as NaN, makes the product and its ceiling NaN.
\<close>

theorem calculateRIS_formula:
  "calculateRIS params =
    (let p0 = controlRate params;
         p1 = p0 * (1 - effectSize params / 100);
         zA = normalQuantile (Fin (1 - alpha params / 2));
         zB = normalQuantile (Fin (1 - beta params))
     in if p0 \<le> 0 \<or> 1 \<le> p0 \<or> p1 \<le> 0 \<or> 1 \<le> p1 then Fin 100000
        else if \<bar>ln (anticipatedOR p0 p1)\<bar> < 0.001 then Fin 100000
        else Math_ceil (Fin 2 * ((zA + zB) * (zA + zB) * Fin (varComponent p0 p1)
                                  / Fin ((ln (anticipatedOR p0 p1))\<^sup>2))
                        * heterogeneityCorrection params))"
  by (rule calculateRIS_cases)

section \<open>Futility boundary against monitoring boundary\<close>

text \<open>
  Claim C4, as stated: for every information fraction in (0,1) and every alpha and beta in
  (0,0.5) the O'Brien-Fleming futility boundary is smaller in magnitude than the monitoring
  boundary. It fails at fraction 0.81, alpha 0.4 and beta 0.05: the monitoring boundary is
  below 0.95 and the futility boundary is above 1.
\<close>

theorem futility_below_monitoring_counterexample:
  "\<not> \<bar>computeFutilityBoundary (Fin 0.81) (Fin 0.05) (Some FB_obrien_fleming)\<bar>
       < \<bar>computeMonitoringBoundary (Fin 0.81) (Fin 0.4)\<bar>"
proof -
  have mb: "computeMonitoringBoundary (Fin 0.81) (Fin 0.4) = Fin (normalQuantile_real 0.8 / 0.9)"
    using computeMonitoringBoundary_Fin[of "0.81" "0.4"] by (simp add: sqrt_081)
  have fb: "computeFutilityBoundary (Fin 0.81) (Fin 0.05) (Some FB_obrien_fleming)
            = Fin (min (normalQuantile_real 0.975 / 0.9 * 0.5) (normalQuantile_real 0.95))"
    using computeFutilityBoundary_Fin[of "0.81" "0.05" "Some FB_obrien_fleming"] by (simp add: sqrt_081)
  define mbv where "mbv = normalQuantile_real 0.8 / 0.9"
  define fbv where "fbv = min (normalQuantile_real 0.975 / 0.9 * 0.5) (normalQuantile_real 0.95)"
  have "0 < mbv" "mbv < 1"
    using quantile_080 by (simp_all add: mbv_def)
  moreover have "1 < fbv"
    using quantile_0975 quantile_095 by (simp add: fbv_def)
  ultimately have "\<not> \<bar>fbv\<bar> < \<bar>mbv\<bar>"
    by linarith
  then show ?thesis
    unfolding mb fb mbv_def[symmetric] fbv_def[symmetric] by simp
qed

text \<open>
  Claim C4, amended. For every information fraction t in (0,1) and every alpha and beta in
  (0,0.5), with the quantiles as \<open>normalQuantile\<close> computes them, the monitoring boundary is
  the positive number zA / sqrt t and the futility boundary is the positive number
  min (zB2 / sqrt t * 0.5, zB1), and the futility boundary is smaller in magnitude exactly
  when half of zB2 is below zA or zB1 * sqrt t is below zA (zA the quantile at 1 - alpha/2,
  zB2 at 1 - beta/2, zB1 at 1 - beta).
\<close>

theorem futility_below_monitoring_iff:
  assumes "0 < t" and "t < 1" and "0 < a" and "a < 1 / 2" and "0 < b" and "b < 1 / 2"
  shows "\<exists>mb fb. computeMonitoringBoundary (Fin t) (Fin a) = Fin mb \<and>
           computeFutilityBoundary (Fin t) (Fin b) (Some FB_obrien_fleming) = Fin fb \<and>
           mb = normalQuantile_real (1 - a / 2) / sqrt t \<and>
           fb = min (normalQuantile_real (1 - b / 2) / sqrt t * 0.5) (normalQuantile_real (1 - b)) \<and>
           0 < mb \<and> 0 < fb \<and>
           (\<bar>fb\<bar> < \<bar>mb\<bar> \<longleftrightarrow>
              normalQuantile_real (1 - b / 2) * 0.5 < normalQuantile_real (1 - a / 2) \<or>
              normalQuantile_real (1 - b) * sqrt t < normalQuantile_real (1 - a / 2))"
proof -
  define zA where "zA = normalQuantile_real (1 - a / 2)"
  define zB2 where "zB2 = normalQuantile_real (1 - b / 2)"
  define zB1 where "zB1 = normalQuantile_real (1 - b)"
  define s where "s = sqrt t"
  have s: "0 < s" using assms by (simp add: s_def)
  have pos: "0 < zA" "0 < zB2" "0 < zB1"
    using assms by (simp_all add: zA_def zB2_def zB1_def normalQuantile_real_pos)
  have mb: "computeMonitoringBoundary (Fin t) (Fin a) = Fin (zA / s)"
    using assms by (simp add: computeMonitoringBoundary_Fin zA_def s_def)
  have fb: "computeFutilityBoundary (Fin t) (Fin b) (Some FB_obrien_fleming)
              = Fin (min (zB2 / s * 0.5) zB1)"
    using assms by (simp add: computeFutilityBoundary_Fin zB2_def zB1_def s_def)
  have mbpos: "0 < zA / s" using pos s by simp
  have fbpos: "0 < min (zB2 / s * 0.5) zB1" using pos s by simp
  have e1: "zB2 / s * 0.5 < zA / s \<longleftrightarrow> zB2 * 0.5 < zA"
    using s by (simp add: field_simps)
  have e2: "zB1 < zA / s \<longleftrightarrow> zB1 * s < zA"
    using s by (simp add: field_simps)
  have "\<bar>min (zB2 / s * 0.5) zB1\<bar> < \<bar>zA / s\<bar> \<longleftrightarrow> min (zB2 / s * 0.5) zB1 < zA / s"
    using mbpos fbpos by (simp only: abs_of_pos)
  also have "\<dots> \<longleftrightarrow> zB2 / s * 0.5 < zA / s \<or> zB1 < zA / s"
    by (simp add: min_less_iff_disj)
  also have "\<dots> \<longleftrightarrow> zB2 * 0.5 < zA \<or> zB1 * s < zA"
    unfolding e1 e2 ..
  finally have iff: "\<bar>min (zB2 / s * 0.5) zB1\<bar> < \<bar>zA / s\<bar> \<longleftrightarrow> zB2 * 0.5 < zA \<or> zB1 * s < zA" .
  show ?thesis
    using mb fb mbpos fbpos iff
    unfolding zA_def zB2_def zB1_def s_def by blast
qed


theorem futility_below_monitoring_iff_witness:
  "\<exists>mb fb. computeMonitoringBoundary (Fin (1 / 2)) (Fin (1 / 20)) = Fin mb \<and>
     computeFutilityBoundary (Fin (1 / 2)) (Fin (1 / 5)) (Some FB_obrien_fleming) = Fin fb \<and>
     0 < mb \<and> 0 < fb \<and> \<bar>fb\<bar> < \<bar>mb\<bar>"
proof -
  have "normalQuantile_real (9 / 10) * (1 / 2) < normalQuantile_real (39 / 40)"
    using quantile_090 quantile_0975 by simp
  then show ?thesis
    using futility_below_monitoring_iff[of "1 / 2" "1 / 20" "1 / 5"] by auto
qed

section \<open>Invariants of the trace\<close>











section \<open>The alpha-spending function\<close>

text \<open>
  Claim C7, as stated, ends with: for alpha in (0,0.5) the spending function is strictly
  increasing in the fraction on (0,1). It fails at alpha 0.05 between the fractions 0.001
  and 0.002: the argument of \<open>normalCDF\<close> is above 43 at both, the exponential in
  \<open>normalCDF\<close> underflows to zero, \<open>normalCDF\<close> returns 1 and the spending is 0 at both.
\<close>

theorem lanDeMetsAlphaSpending_strict_counterexample:
  "\<not> lanDeMetsAlphaSpending (Fin 0.001) (Fin 0.05) < lanDeMetsAlphaSpending (Fin 0.002) (Fin 0.05)"
proof -
  define z where "z = normalQuantile_real 0.975"
  have "1.9599 * 1.9599 < z * z"
    using quantile_0975(1) unfolding z_def[symmetric]
    by (intro mult_strict_mono) simp_all
  then have zz: "3.84 < z\<^sup>2"
    by (simp add: power2_eq_square)
  have "lanDeMetsAlphaSpending (Fin 0.001) (Fin 0.05) = Fin 0"
    using zz by (intro alphaSpending_flat) (simp_all add: z_def)
  moreover have "lanDeMetsAlphaSpending (Fin 0.002) (Fin 0.05) = Fin 0"
    using zz by (intro alphaSpending_flat) (simp_all add: z_def)
  ultimately show ?thesis
    by simp
qed

text \<open>
  Claim C7, amended. For every alpha in (0,0.5) the spending function returns 0 at every
  fraction at most 0 and returns alpha itself at every fraction at least 1; at a fraction t
  in (0,1) it is the finite non-negative number 2 (1 - normalCDF (z / sqrt t)) with
  z = normalQuantile (1 - alpha/2); on (0,1) it is non-decreasing in t, and it is exactly 0
  at every t in (0,1) with 1490.2664382038824 t below the square of z, so it is not
  strictly increasing there.
\<close>

theorem lanDeMetsAlphaSpending_non_decreasing:
  assumes "0 < a" and "a < 1 / 2"
  shows "(\<forall>f. f \<le> Fin 0 \<longrightarrow> lanDeMetsAlphaSpending f (Fin a) = Fin 0) \<and>
         (\<forall>f. Fin 1 \<le> f \<longrightarrow> lanDeMetsAlphaSpending f (Fin a) = Fin a) \<and>
         (\<forall>t. 0 < t \<and> t < 1 \<longrightarrow>
            lanDeMetsAlphaSpending (Fin t) (Fin a) =
              Fin 2 * (Fin 1 - normalCDF (normalQuantile (Fin 1 - Fin a / Fin 2)
                                           / Math_sqrt (Fin t))) \<and>
            is_finite (lanDeMetsAlphaSpending (Fin t) (Fin a)) \<and>
            Fin 0 \<le> lanDeMetsAlphaSpending (Fin t) (Fin a)) \<and>
         (\<forall>s t. 0 < s \<and> s \<le> t \<and> t < 1 \<longrightarrow>
            lanDeMetsAlphaSpending (Fin s) (Fin a) \<le> lanDeMetsAlphaSpending (Fin t) (Fin a)) \<and>
         (\<forall>t z. 0 < t \<and> t < 1 \<and> normalQuantile (Fin 1 - Fin a / Fin 2) = Fin z
                 \<and> 1490.2664382038824 * t < z\<^sup>2 \<longrightarrow>
            lanDeMetsAlphaSpending (Fin t) (Fin a) = Fin 0)"
proof (intro conjI allI impI)
  fix f assume "f \<le> Fin 0"
  then show "lanDeMetsAlphaSpending f (Fin a) = Fin 0"
    by (rule alphaSpending_nonpositive_fraction)
next
  fix f assume "Fin 1 \<le> f"
  then show "lanDeMetsAlphaSpending f (Fin a) = Fin a"
    by (rule alphaSpending_full_fraction)
next
  fix t :: real assume "0 < t \<and> t < 1"
  then show "lanDeMetsAlphaSpending (Fin t) (Fin a) =
              Fin 2 * (Fin 1 - normalCDF (normalQuantile (Fin 1 - Fin a / Fin 2)
                                           / Math_sqrt (Fin t)))"
    by (intro alphaSpending_formula) simp_all
next
  fix t :: real assume "0 < t \<and> t < 1"
  then show "is_finite (lanDeMetsAlphaSpending (Fin t) (Fin a))"
    using assms by (simp add: lanDeMetsAlphaSpending_Fin)
next
  fix t :: real assume "0 < t \<and> t < 1"
  then show "Fin 0 \<le> lanDeMetsAlphaSpending (Fin t) (Fin a)"
    using assms by (intro alphaSpending_nonneg) simp_all
next
  fix s t :: real assume "0 < s \<and> s \<le> t \<and> t < 1"
  then show "lanDeMetsAlphaSpending (Fin s) (Fin a) \<le> lanDeMetsAlphaSpending (Fin t) (Fin a)"
    using assms by (intro alphaSpending_mono) simp_all
next
  fix t z :: real
  assume h: "0 < t \<and> t < 1 \<and> normalQuantile (Fin 1 - Fin a / Fin 2) = Fin z
             \<and> 1490.2664382038824 * t < z\<^sup>2"
  have "normalQuantile (Fin 1 - Fin a / Fin 2) = Fin (normalQuantile_real (1 - a / 2))"
    using assms by (intro upper_quantile_Fin) simp_all
  with h have "z = normalQuantile_real (1 - a / 2)"
    by simp
  with h show "lanDeMetsAlphaSpending (Fin t) (Fin a) = Fin 0"
    using assms by (intro alphaSpending_flat) simp_all
qed

theorem lanDeMetsAlphaSpending_non_decreasing_witness:
  "lanDeMetsAlphaSpending (Fin 0) (Fin 0.05) = Fin 0 \<and>
   lanDeMetsAlphaSpending (Fin 1) (Fin 0.05) = Fin 0.05 \<and>
   is_finite (lanDeMetsAlphaSpending (Fin 0.5) (Fin 0.05)) \<and>
   Fin 0 \<le> lanDeMetsAlphaSpending (Fin 0.5) (Fin 0.05) \<and>
   lanDeMetsAlphaSpending (Fin 0.25) (Fin 0.05) \<le> lanDeMetsAlphaSpending (Fin 0.5) (Fin 0.05) \<and>
   lanDeMetsAlphaSpending (Fin 0.001) (Fin 0.05) = Fin 0"
proof -
  have a: "(0::real) < 0.05" "(0.05::real) < 1 / 2"
    by simp_all
  note all = lanDeMetsAlphaSpending_non_decreasing[OF a]
  note atZero = all[THEN conjunct1, rule_format]
  note atOne = all[THEN conjunct2, THEN conjunct1, rule_format]
  note inside = all[THEN conjunct2, THEN conjunct2, THEN conjunct1, rule_format]
  note mono = all[THEN conjunct2, THEN conjunct2, THEN conjunct2, THEN conjunct1, rule_format]
  note flat = all[THEN conjunct2, THEN conjunct2, THEN conjunct2, THEN conjunct2, rule_format]
  have "lanDeMetsAlphaSpending (Fin 0) (Fin 0.05) = Fin 0"
    by (rule atZero) simp
  moreover have "lanDeMetsAlphaSpending (Fin 1) (Fin 0.05) = Fin 0.05"
    by (rule atOne) simp
  moreover have "is_finite (lanDeMetsAlphaSpending (Fin 0.5) (Fin 0.05))
                 \<and> Fin 0 \<le> lanDeMetsAlphaSpending (Fin 0.5) (Fin 0.05)"
  proof -
    have "(0::real) < 0.5 \<and> (0.5::real) < 1"
      by simp
    from inside[OF this] show ?thesis
      by (elim conjE) (rule conjI)
  qed
  moreover have "lanDeMetsAlphaSpending (Fin 0.25) (Fin 0.05)
                   \<le> lanDeMetsAlphaSpending (Fin 0.5) (Fin 0.05)"
    by (rule mono) simp
  moreover have "lanDeMetsAlphaSpending (Fin 0.001) (Fin 0.05) = Fin 0"
  proof (rule flat[where z = "normalQuantile_real 0.975"], intro conjI)
    show "normalQuantile (Fin 1 - Fin 0.05 / Fin 2) = Fin (normalQuantile_real 0.975)"
      using upper_quantile_Fin[of "0.05"] by simp
    have "1.9599 * 1.9599 < normalQuantile_real 0.975 * normalQuantile_real 0.975"
      using quantile_0975(1) by (intro mult_strict_mono) simp_all
    then show "1490.2664382038824 * 0.001 < (normalQuantile_real 0.975)\<^sup>2"
      by (simp add: power2_eq_square)
  qed simp_all
  ultimately show ?thesis
    by simp
qed

section \<open>The futility tag of the parameters\<close>

lemma tsaPoint_params:
  assumes "alpha p1 = alpha p2" and "beta p1 = beta p2"
  shows "tsaPoint studies p1 risv k n = tsaPoint studies p2 risv k n"
  using assms by (simp add: tsaPoint_def)

lemma calculateRIS_params:
  assumes "alpha p1 = alpha p2" and "beta p1 = beta p2" and "controlRate p1 = controlRate p2"
    and "effectSize p1 = effectSize p2"
    and "heterogeneityCorrection p1 = heterogeneityCorrection p2"
  shows "calculateRIS p1 = calculateRIS p2"
  unfolding calculateRIS_def Let_def assms by (rule refl)

lemma tsaLoop_params:
  assumes "alpha p1 = alpha p2" and "beta p1 = beta p2"
  shows "tsaLoop studies p1 risv i n trace = tsaLoop studies p2 risv i n trace"
proof (induction "length studies - i" arbitrary: i n trace)
  case 0
  then show ?case by (simp add: tsaLoop_done)
next
  case (Suc m)
  then have lt: "i < length studies" and m: "m = length studies - Suc i"
    by simp_all
  show ?case
    by (simp add: tsaLoop_step[OF lt] tsaPoint_params[OF assms] Suc.hyps(1)[OF m])
qed

lemma calculateTSA_params:
  assumes "alpha p1 = alpha p2" and "beta p1 = beta p2" and "controlRate p1 = controlRate p2"
    and "effectSize p1 = effectSize p2"
    and "heterogeneityCorrection p1 = heterogeneityCorrection p2"
  shows "calculateTSA studies p1 = calculateTSA studies p2"
  by (simp add: calculateTSA_def calculateRIS_params[OF assms]
        tsaLoop_params[OF assms(1,2)])

lemma nullEffect_futility:
  "futilityBoundaryType noFutilityParams = Some FB_none \<and>
   calculateTSA nullEffectExample noFutilityParams \<noteq> None \<and>
   Fin 0 < futilityBoundary (cumulativeData (the (calculateTSA nullEffectExample noFutilityParams)) ! 0) \<and>
   type (tsaInterpretation (the (calculateTSA nullEffectExample noFutilityParams))) = ''futility''"
proof -
  have ne: "nullEffectExample \<noteq> []" by (simp add: nullEffectExample_def)
  have same: "calculateTSA nullEffectExample noFutilityParams
              = calculateTSA nullEffectExample exampleParams"
    by (rule calculateTSA_params) (simp_all add: noFutilityParams_def)
  obtain r where r: "calculateTSA nullEffectExample exampleParams = Some r"
    and tr: "cumulativeData r =
               map (\<lambda>k. tsaPoint nullEffectExample exampleParams (calculateRIS exampleParams) k
                          (num_of (patientsUpTo nullEffectExample 0 0 k)))
                 [0 ..< length nullEffectExample]"
    and int: "tsaInterpretation r = interpretationOf (last (cumulativeData r))"
    using calculateTSA_trace[OF ne, of exampleParams] by blast
  obtain rv where rv: "calculateRIS exampleParams = Fin rv" and rvb: "1336 \<le> rv" "rv \<le> 1969"
    using exampleParams_ris by blast
  have len: "length nullEffectExample = 1" by (simp add: nullEffectExample_def)
  have n0: "patientsUpTo nullEffectExample 0 0 0 = 400"
    by (simp add: patientsUpTo_def nullEffectExample_def addDouble_exact)
  have trace: "cumulativeData r = [tsaPoint nullEffectExample exampleParams (Fin rv) 0 (Fin 400)]"
    by (simp add: tr len rv n0 num_of_def)
  define p where "p = tsaPoint nullEffectExample exampleParams (Fin rv) 0 (Fin 400)"
  have rpos: "0 < rv" using rvb by simp
  have f0: "Fin 400 / Fin rv = Fin (400 / rv)"
    using rpos by simp
  have t0: "0 < 400 / rv" "400 / rv < 1"
    using rvb rpos by (simp_all add: field_simps)
  have al: "0 < alpha exampleParams" "alpha exampleParams < 2"
    and be: "0 < beta exampleParams" "beta exampleParams < 1"
    by (simp_all add: exampleParams_def)
  define zA where "zA = normalQuantile_real (1 - alpha exampleParams / 2)"
  define zB2 where "zB2 = normalQuantile_real (1 - beta exampleParams / 2)"
  define zB1 where "zB1 = normalQuantile_real (1 - beta exampleParams)"
  have zpos: "0 < zA" "0 < zB2" "0 < zB1"
    unfolding zA_def zB2_def zB1_def
    by (rule normalQuantile_real_pos; simp add: exampleParams_def)+
  have t32: "400 / rv < 3 / 2" by (rule less_trans[OF t0(2)]) simp
  have mb: "monitoringBoundary p = Fin (zA / sqrt (400 / rv))"
    unfolding p_def tsaPoint_fields f0 zA_def
    by (rule computeMonitoringBoundary_Fin[OF t0(1) t32 al])
  have fb: "futilityBoundary p = Fin (min (zB2 / sqrt (400 / rv) * 0.5) zB1)"
    unfolding p_def tsaPoint_fields f0 zB2_def zB1_def
    by (rule computeFutilityBoundary_Fin[OF t0 be]) simp
  have pooled: "calculatePooledOR (take (Suc 0) nullEffectExample) = \<lparr> or = Fin 1, se = Fin (sqrt (4 / 51)) \<rparr>"
    unfolding calculatePooledOR_counted
    by (simp add: pooledOR_counted_def retainedStudies_def countedStudies_def mantelHaenszel_def
        nullEffectExample_def termR_def termS_def termP_def termQ_def
        cellA_def cellB_def cellC_def cellD_def cellN_def num_of_def minus_jsnum_def zero_jsnum_def)
  have zs: "zStatistic p = Fin 0"
    unfolding p_def by (simp add: tsaPoint_def Let_def pooled)
  have mbpos: "0 < zA / sqrt (400 / rv)" using zpos t0 by simp
  have fbpos: "0 < min (zB2 / sqrt (400 / rv) * 0.5) zB1" using zpos t0 by simp
  have "type (interpretationOf p) = ''futility''"
    using mbpos fbpos by (simp add: interpretationOf_def Let_def mb fb zs)
  moreover have "Fin 0 < futilityBoundary p"
    using fbpos by (simp add: fb)
  ultimately show ?thesis
    unfolding same r by (simp add: int trace p_def noFutilityParams_def)
qed

text \<open>
  Claim C10. The result of \<open>calculateTSA\<close> does not depend on the futility tag of the
  parameters: two parameter records that agree on every other field give the same result,
  since the driver calls \<open>computeFutilityBoundary\<close> without a tag and so with the default
  \<open>'obrien-fleming'\<close>. In particular, with the tag \<open>'none'\<close> the one-study list
  \<open>nullEffectExample\<close> yields a record with a positive futility boundary and the
  interpretation \<open>futility\<close>.
\<close>

theorem calculateTSA_ignores_futility_tag:
  "(alpha p1 = alpha p2 \<and> beta p1 = beta p2 \<and> controlRate p1 = controlRate p2 \<and>
    effectSize p1 = effectSize p2 \<and> heterogeneityCorrection p1 = heterogeneityCorrection p2 \<and>
    useI2Adjustment p1 = useI2Adjustment p2 \<longrightarrow>
      calculateTSA studies p1 = calculateTSA studies p2) \<and>
   futilityBoundaryType noFutilityParams = Some FB_none \<and>
   calculateTSA nullEffectExample noFutilityParams \<noteq> None \<and>
   Fin 0 < futilityBoundary
             (cumulativeData (the (calculateTSA nullEffectExample noFutilityParams)) ! 0) \<and>
   type (tsaInterpretation (the (calculateTSA nullEffectExample noFutilityParams))) = ''futility''"
  using nullEffect_futility calculateTSA_params[of p1 p2 studies] by blast

theorem calculateTSA_ignores_futility_tag_witness:
  "futilityBoundaryType noFutilityParams \<noteq> futilityBoundaryType exampleParams \<and>
   calculateTSA exampleStudies noFutilityParams = calculateTSA exampleStudies exampleParams"
proof -
  have "alpha noFutilityParams = alpha exampleParams \<and> beta noFutilityParams = beta exampleParams \<and>
    controlRate noFutilityParams = controlRate exampleParams \<and>
    effectSize noFutilityParams = effectSize exampleParams \<and>
    heterogeneityCorrection noFutilityParams = heterogeneityCorrection exampleParams \<and>
    useI2Adjustment noFutilityParams = useI2Adjustment exampleParams"
    by (simp add: noFutilityParams_def)
  moreover have "futilityBoundaryType noFutilityParams \<noteq> futilityBoundaryType exampleParams"
    by (simp add: noFutilityParams_def exampleParams_def)
  ultimately show ?thesis
    using calculateTSA_ignores_futility_tag[of noFutilityParams exampleParams exampleStudies]
    by blast
qed

end
